theory Spec2Isabelle
  imports Complex_Main "HOL-Library.Multiset"
begin

section \<open>JavaScript numbers\<close>

text \<open>
  A JavaScript \<^verbatim>\<open>number\<close> is an IEEE 754 double: a finite value, one of the two
  infinities, or NaN. A finite double is carried as the rational it denotes (every
  double is a rational; the two zeros are one value here, which no operation of the
  wallet code tells apart).
\<close>

datatype number = NaN | NegInfinity | Num rat | PosInfinity

text \<open>
  The abstract operation \<^verbatim>\<open>IsLessThan(x, y)\<close> of ECMAScript on two numbers:
  \<open>None\<close> is its result \<^verbatim>\<open>undefined\<close>, returned when either side is NaN.
\<close>

fun IsLessThan :: "number \<Rightarrow> number \<Rightarrow> bool option" where
  "IsLessThan NaN y = None"
| "IsLessThan x NaN = None"
| "IsLessThan (Num a) (Num b) = Some (a < b)"
| "IsLessThan PosInfinity y = Some False"
| "IsLessThan x PosInfinity = Some True"
| "IsLessThan x NegInfinity = Some False"
| "IsLessThan NegInfinity y = Some True"

text \<open>\<^verbatim>\<open>x > y\<close> is true when \<^verbatim>\<open>IsLessThan(y, x)\<close> is true.\<close>

definition js_gt :: "number \<Rightarrow> number \<Rightarrow> bool" where
  "js_gt x y \<longleftrightarrow> IsLessThan y x = Some True"

text \<open>\<^verbatim>\<open>x <= y\<close> is true when \<^verbatim>\<open>IsLessThan(y, x)\<close> is false (and not undefined).\<close>

definition js_le :: "number \<Rightarrow> number \<Rightarrow> bool" where
  "js_le x y \<longleftrightarrow> IsLessThan y x = Some False"

fun is_zero :: "number \<Rightarrow> bool" where
  "is_zero (Num a) = (a = 0)"
| "is_zero x = False"

fun is_negative :: "number \<Rightarrow> bool" where
  "is_negative (Num a) = (a < 0)"
| "is_negative NegInfinity = True"
| "is_negative x = False"

text \<open>
  The product \<^verbatim>\<open>x * y\<close>. The exact product of two finite doubles is rounded to a
  double (or overflows to an infinity); that rounding is the parameter \<open>rnd\<close>, applied
  to the non-zero exact products only. Zero times an infinity is NaN.
\<close>

fun js_mul :: "(rat \<Rightarrow> number) \<Rightarrow> number \<Rightarrow> number \<Rightarrow> number" where
  "js_mul rnd (Num a) (Num b) = (if a * b = 0 then Num 0 else rnd (a * b))"
| "js_mul rnd NaN y = NaN"
| "js_mul rnd x NaN = NaN"
| "js_mul rnd x y =
     (if is_zero x \<or> is_zero y then NaN
      else if is_negative x = is_negative y then PosInfinity else NegInfinity)"

text \<open>
  What ends a call without a value: a RangeError thrown, or the engine giving up for lack
  of memory.
\<close>

datatype js_error = RangeError | OutOfMemory

section \<open>Number.prototype.toFixed\<close>

definition digitChar :: "nat \<Rightarrow> char" where
  "digitChar d = ''0123456789'' ! d"

text \<open>The decimal digits of a natural number, most significant first; \<open>''0''\<close> for 0.\<close>

fun decimalDigits :: "nat \<Rightarrow> string" where
  "decimalDigits n =
     (if n < 10 then [digitChar n] else decimalDigits (n div 10) @ [digitChar (n mod 10)])"

declare decimalDigits.simps [simp del]

text \<open>
  \<^verbatim>\<open>Number::toString\<close> for a finite \<open>x\<close> of at least \<open>10^21\<close>. ECMAScript takes integers
  \<open>s\<close> and \<open>n\<close> with \<open>s * 10^(n - k)\<close> reading back as \<open>x\<close>, \<open>k\<close> the number of digits
  of \<open>s\<close>, as small as possible; here \<open>n\<close> is above 21, so the result is in exponential
  notation: the first digit of \<open>s\<close>, a point and the other digits when there are any,
  then \<^verbatim>\<open>e+\<close> and \<open>n - 1\<close>. The pair \<open>(s, n)\<close> depends on the neighbouring doubles and is
  given by the parameter \<open>shortest\<close> of the functions below.
\<close>

definition toString_exponential :: "nat \<times> nat \<Rightarrow> string" where
  "toString_exponential sn =
     (let ds = decimalDigits (fst sn)
      in (if length ds = 1 then ds else hd ds # CHR ''.'' # tl ds) @
           ''e+'' @ decimalDigits (snd sn - 1))"

text \<open>
  \<^verbatim>\<open>x.toFixed(f)\<close>, after ECMAScript: a RangeError when \<open>f\<close> is above 100; the
  strings of \<^verbatim>\<open>Number::toString\<close> for NaN and the infinities; for a finite \<open>x\<close> of
  magnitude at least \<open>10^21\<close> again \<^verbatim>\<open>Number::toString\<close>; otherwise the integer \<open>n\<close>
  nearest to \<open>x * 10^f\<close> (the larger one on a tie), written with \<open>f\<close> digits after
  the point.
\<close>

definition toFixed_finite :: "nat \<Rightarrow> rat \<Rightarrow> string" where
  "toFixed_finite f x =
     (let n = nat \<lfloor>x * 10 ^ f + 1 / 2\<rfloor>;
          m = decimalDigits n
      in if f \<noteq> 0 then
           (let m = (if length m \<le> f then replicate (f + 1 - length m) (CHR ''0'') @ m else m);
                k = length m
            in take (k - f) m @ ''.'' @ drop (k - f) m)
         else m)"

definition toFixed_string :: "(rat \<Rightarrow> nat \<times> nat) \<Rightarrow> nat \<Rightarrow> number \<Rightarrow> string" where
  "toFixed_string shortest f x =
     (case x of
        NaN \<Rightarrow> ''NaN''
      | PosInfinity \<Rightarrow> ''Infinity''
      | NegInfinity \<Rightarrow> ''-Infinity''
      | Num q \<Rightarrow>
          (let s = (if q < 0 then ''-'' else '''');
               a = \<bar>q\<bar>
           in s @ (if a \<ge> 10 ^ 21 then toString_exponential (shortest a) else toFixed_finite f a)))"

definition toFixed :: "(rat \<Rightarrow> nat \<times> nat) \<Rightarrow> nat \<Rightarrow> number \<Rightarrow> js_error + string" where
  "toFixed shortest f x = (if f > 100 then Inl RangeError else Inr (toFixed_string shortest f x))"

section \<open>Reading a property of an object\<close>

text \<open>
  The tables of the wallet page are object literals, so \<^verbatim>\<open>table[key]\<close> finds the
  table's own property of that name and otherwise the member of \<^verbatim>\<open>Object.prototype\<close> of
  that name; only when there is neither is the result undefined. These are the names
  \<^verbatim>\<open>Object.prototype\<close> defines.
\<close>

definition Object_prototype_names :: "string list" where
  "Object_prototype_names =
     [''constructor'', ''hasOwnProperty'', ''isPrototypeOf'', ''propertyIsEnumerable'',
      ''toLocaleString'', ''toString'', ''valueOf'', ''__proto__'',
      ''__defineGetter__'', ''__defineSetter__'', ''__lookupGetter__'', ''__lookupSetter__'']"

text \<open>
  What such a read gives: a value of the type the table declares, or the member of
  \<^verbatim>\<open>Object.prototype\<close> of the given name (a function; the prototype object itself for
  \<^verbatim>\<open>__proto__\<close>). Two reads of the same member give the same object, and members of
  different names are different objects, so \<^verbatim>\<open>!==\<close> on these values is inequality.
\<close>

datatype 'a resolved = Value 'a | Member string

text \<open>\<^verbatim>\<open>table[key]\<close>, with \<open>None\<close> for undefined.\<close>

definition Get :: "(string \<rightharpoonup> 'a) \<Rightarrow> string \<Rightarrow> 'a resolved option" where
  "Get table key =
     (case table key of
        Some v \<Rightarrow> Some (Value v)
      | None \<Rightarrow> if key \<in> set Object_prototype_names then Some (Member key) else None)"

text \<open>\<^verbatim>\<open>v ?? d\<close>: the right-hand side is taken only when \<open>v\<close> is undefined (or null).\<close>

definition nullish_coalesce :: "'a resolved option \<Rightarrow> 'a \<Rightarrow> 'a resolved" where
  "nullish_coalesce v d = (case v of Some x \<Rightarrow> x | None \<Rightarrow> Value d)"

text \<open>\<^verbatim>\<open>ToNumber\<close>: a function or an object of \<^verbatim>\<open>Object.prototype\<close> converts to NaN.\<close>

fun ToNumber :: "number resolved \<Rightarrow> number" where
  "ToNumber (Value x) = x"
| "ToNumber (Member name) = NaN"

section \<open>Wallet balances\<close>

record WalletBalance =
  currency :: string
  amount :: number
  blockchain :: string

text \<open>
  An element of \<^verbatim>\<open>balancesWithPriority\<close>: the balance spread, plus \<^verbatim>\<open>priority\<close>, which is
  what \<^verbatim>\<open>getPriority\<close> returned.
\<close>

record PrioritizedBalance = WalletBalance +
  priority :: "int resolved"

record FormattedWalletBalance = PrioritizedBalance +
  formatted :: string
  usdValue :: number

subsection \<open>ProblematicWalletPage\<close>

text \<open>The \<^verbatim>\<open>switch\<close> of the problematic page (its argument \<^verbatim>\<open>blockchain\<close> is \<open>chain\<close> here).\<close>

definition problematic_getPriority :: "string \<Rightarrow> int" where
  "problematic_getPriority chain =
     (if chain = ''Osmosis'' then 100
      else if chain = ''Ethereum'' then 50
      else if chain = ''Arbitrum'' then 30
      else if chain = ''Zilliqa'' then 20
      else if chain = ''Neo'' then 20
      else - 99)"

definition problematic_filter :: "WalletBalance \<Rightarrow> bool" where
  "problematic_filter balance =
     (let balancePriority = problematic_getPriority (blockchain balance)
      in if balancePriority > - 99
         then (if js_le (amount balance) (Num 0) then True else False)
         else False)"

definition problematic_compare :: "WalletBalance \<Rightarrow> WalletBalance \<Rightarrow> int" where
  "problematic_compare lhs rhs =
     (let leftPriority = problematic_getPriority (blockchain lhs);
          rightPriority = problematic_getPriority (blockchain rhs)
      in if leftPriority > rightPriority then - 1
         else if rightPriority > leftPriority then 1
         else 0)"

subsection \<open>Array.prototype.sort\<close>

text \<open>
  \<^verbatim>\<open>Array.prototype.sort\<close> reads the comparator through \<^verbatim>\<open>SortCompare\<close>, which takes a
  NaN result as 0; only the sign of the result matters.
\<close>

fun compare_sign :: "number \<Rightarrow> int" where
  "compare_sign NaN = 0"
| "compare_sign (Num q) = (if q < 0 then - 1 else if q = 0 then 0 else 1)"
| "compare_sign PosInfinity = 1"
| "compare_sign NegInfinity = - 1"

definition SortCompare :: "('a \<Rightarrow> 'a \<Rightarrow> number) \<Rightarrow> 'a \<Rightarrow> 'a \<Rightarrow> int" where
  "SortCompare comparefn x y = compare_sign (comparefn x y)"

text \<open>
  A stable sort by insertion, for a comparison \<open>cmp\<close> as \<^verbatim>\<open>SortCompare\<close> gives it: each
  element goes before the first element it does not have to follow (\<open>cmp x y \<le> 0\<close>),
  from the right end of the array, which keeps equal elements in their input order.
\<close>

fun sort_insert :: "('a \<Rightarrow> 'a \<Rightarrow> int) \<Rightarrow> 'a \<Rightarrow> 'a list \<Rightarrow> 'a list" where
  "sort_insert cmp x [] = [x]"
| "sort_insert cmp x (y # ys) =
     (if cmp x y \<le> 0 then x # y # ys else y # sort_insert cmp x ys)"

definition Array_sort :: "('a \<Rightarrow> 'a \<Rightarrow> int) \<Rightarrow> 'a list \<Rightarrow> 'a list" where
  "Array_sort cmp xs = foldr (sort_insert cmp) xs []"

text \<open>
  ECMAScript's consistent comparator for a set of values \<open>S\<close>, in terms of
  \<^verbatim>\<open>SortCompare\<close>: comparing equal is reflexive, symmetric and transitive, and comparing
  less and comparing greater are transitive.
\<close>

definition consistent_comparator :: "('a \<Rightarrow> 'a \<Rightarrow> int) \<Rightarrow> 'a set \<Rightarrow> bool" where
  "consistent_comparator cmp S \<longleftrightarrow>
     (\<forall>a \<in> S. cmp a a = 0) \<and>
     (\<forall>a \<in> S. \<forall>b \<in> S. cmp a b = 0 \<longrightarrow> cmp b a = 0) \<and>
     (\<forall>a \<in> S. \<forall>b \<in> S. \<forall>c \<in> S. cmp a b = 0 \<and> cmp b c = 0 \<longrightarrow> cmp a c = 0) \<and>
     (\<forall>a \<in> S. \<forall>b \<in> S. \<forall>c \<in> S. cmp a b < 0 \<and> cmp b c < 0 \<longrightarrow> cmp a c < 0) \<and>
     (\<forall>a \<in> S. \<forall>b \<in> S. \<forall>c \<in> S. cmp a b > 0 \<and> cmp b c > 0 \<longrightarrow> cmp a c > 0)"

text \<open>
  What ECMAScript promises of \<^verbatim>\<open>xs.sort(comparefn)\<close>: the result \<open>ys\<close> holds the elements
  of \<open>xs\<close>; when the comparator is consistent on them, no element is followed by one that
  must precede it and elements that compare equal keep their input order (the sort is
  stable since ECMAScript 2019); when it is not, the order is left to the engine.
\<close>

definition sort_result :: "('a \<Rightarrow> 'a \<Rightarrow> int) \<Rightarrow> 'a list \<Rightarrow> 'a list \<Rightarrow> bool" where
  "sort_result cmp xs ys \<longleftrightarrow>
     mset ys = mset xs \<and>
     (consistent_comparator cmp (set xs) \<longrightarrow>
        sorted_wrt (\<lambda>a b. cmp a b \<le> 0) ys \<and>
        (\<forall>k \<in> set ys. filter (\<lambda>b. cmp k b = 0) ys = filter (\<lambda>b. cmp k b = 0) xs))"

definition problematic_sortedBalances :: "WalletBalance list \<Rightarrow> WalletBalance list" where
  "problematic_sortedBalances balances =
     Array_sort problematic_compare (filter problematic_filter balances)"

subsection \<open>OptimizedWalletPage\<close>

text \<open>The object literal \<^verbatim>\<open>BLOCKCHAIN_PRIORITIES\<close>, entry by entry.\<close>

definition BLOCKCHAIN_PRIORITIES_entries :: "(string \<times> int) list" where
  "BLOCKCHAIN_PRIORITIES_entries =
     [(''Osmosis'', 100), (''Ethereum'', 50), (''Arbitrum'', 30), (''Zilliqa'', 20), (''Neo'', 20)]"

definition BLOCKCHAIN_PRIORITIES :: "string \<rightharpoonup> int" where
  "BLOCKCHAIN_PRIORITIES = map_of BLOCKCHAIN_PRIORITIES_entries"

text \<open>
  \<^verbatim>\<open>getPriority\<close>, \<^verbatim>\<open>BLOCKCHAIN_PRIORITIES[blockchain] ?? -99\<close>: the table it closes over is
  passed explicitly (its argument \<^verbatim>\<open>blockchain\<close> is \<open>chain\<close> here).
\<close>

definition getPriority :: "(string \<rightharpoonup> int) \<Rightarrow> string \<Rightarrow> int resolved" where
  "getPriority priorities chain = nullish_coalesce (Get priorities chain) (- 99)"

definition balancesWithPriority ::
  "(string \<rightharpoonup> int) \<Rightarrow> WalletBalance list \<Rightarrow> PrioritizedBalance list" where
  "balancesWithPriority priorities balances =
     map (\<lambda>balance.
            \<lparr>currency = currency balance, amount = amount balance,
             blockchain = blockchain balance,
             priority = getPriority priorities (blockchain balance)\<rparr>) balances"

text \<open>
  \<^verbatim>\<open>b.priority - a.priority\<close>: the difference of two numbers, and NaN when either side
  is a member of \<^verbatim>\<open>Object.prototype\<close>. (The difference of two doubles is rounded, which
  keeps its sign and is zero only for equal numbers; the sort reads the sign only.)
\<close>

fun priority_minus :: "int resolved \<Rightarrow> int resolved \<Rightarrow> number" where
  "priority_minus (Value y) (Value x) = Num (of_int (y - x))"
| "priority_minus y x = NaN"

text \<open>The comparator handed to \<^verbatim>\<open>sort\<close> by \<^verbatim>\<open>sortedBalances\<close>.\<close>

definition sortedBalances_compare :: "PrioritizedBalance \<Rightarrow> PrioritizedBalance \<Rightarrow> number" where
  "sortedBalances_compare a b =
     (if priority a \<noteq> priority b then priority_minus (priority b) (priority a) else Num 0)"

text \<open>
  \<^verbatim>\<open>sortedBalances\<close> on an engine whose \<^verbatim>\<open>sort\<close> is the stable insertion sort above.
\<close>

definition sortedBalances :: "PrioritizedBalance list \<Rightarrow> PrioritizedBalance list" where
  "sortedBalances withPriority =
     Array_sort (SortCompare sortedBalances_compare)
       (filter (\<lambda>balance. js_gt (amount balance) (Num 0)) withPriority)"

text \<open>The callback of \<^verbatim>\<open>formattedBalances\<close>: the balance spread, \<^verbatim>\<open>formatted\<close> and \<^verbatim>\<open>usdValue\<close>.\<close>

definition formatBalance ::
  "(rat \<Rightarrow> number) \<Rightarrow> (rat \<Rightarrow> nat \<times> nat) \<Rightarrow> (string \<rightharpoonup> number) \<Rightarrow> PrioritizedBalance
     \<Rightarrow> js_error + FormattedWalletBalance" where
  "formatBalance rnd shortest prices balance =
     (let usd =
            js_mul rnd (ToNumber (nullish_coalesce (Get prices (currency balance)) (Num 0)))
              (amount balance)
      in case toFixed shortest 2 (amount balance) of
           Inl e \<Rightarrow> Inl e
         | Inr s \<Rightarrow>
             Inr \<lparr>currency = currency balance, amount = amount balance,
                  blockchain = blockchain balance, priority = priority balance,
                  formatted = s, usdValue = usd\<rparr>)"

text \<open>\<^verbatim>\<open>Array.prototype.map\<close> with a callback that may throw: the first exception ends it.\<close>

fun map_throwing :: "('a \<Rightarrow> js_error + 'b) \<Rightarrow> 'a list \<Rightarrow> js_error + 'b list" where
  "map_throwing f [] = Inr []"
| "map_throwing f (x # xs) =
     (case f x of
        Inl e \<Rightarrow> Inl e
      | Inr y \<Rightarrow> (case map_throwing f xs of Inl e \<Rightarrow> Inl e | Inr ys \<Rightarrow> Inr (y # ys)))"

definition formattedBalances ::
  "(rat \<Rightarrow> number) \<Rightarrow> (rat \<Rightarrow> nat \<times> nat) \<Rightarrow> (string \<rightharpoonup> number) \<Rightarrow> PrioritizedBalance list
     \<Rightarrow> js_error + FormattedWalletBalance list" where
  "formattedBalances rnd shortest prices sortedList =
     map_throwing (formatBalance rnd shortest prices) sortedList"

text \<open>
  The pipeline of \<^verbatim>\<open>OptimizedWalletPage\<close> from the hooks' values to \<^verbatim>\<open>formattedBalances\<close>
  (\<^verbatim>\<open>useMemo\<close> returns what its callback returns), on the engine with the insertion
  sort.
\<close>

definition OptimizedWalletPage ::
  "(rat \<Rightarrow> number) \<Rightarrow> (rat \<Rightarrow> nat \<times> nat) \<Rightarrow> (string \<rightharpoonup> int) \<Rightarrow> (string \<rightharpoonup> number)
     \<Rightarrow> WalletBalance list \<Rightarrow> js_error + FormattedWalletBalance list" where
  "OptimizedWalletPage rnd shortest priorities prices balances =
     formattedBalances rnd shortest prices
       (sortedBalances (balancesWithPriority priorities balances))"

text \<open>
  The same pipeline on any engine: \<open>out\<close> is a value of \<^verbatim>\<open>formattedBalances\<close> that
  ECMAScript permits, \<^verbatim>\<open>sort\<close> returning any array within its contract.
\<close>

definition OptimizedWalletPage_rel ::
  "(rat \<Rightarrow> number) \<Rightarrow> (rat \<Rightarrow> nat \<times> nat) \<Rightarrow> (string \<rightharpoonup> int) \<Rightarrow> (string \<rightharpoonup> number)
     \<Rightarrow> WalletBalance list \<Rightarrow> FormattedWalletBalance list \<Rightarrow> bool" where
  "OptimizedWalletPage_rel rnd shortest priorities prices balances out \<longleftrightarrow>
     (\<exists>ys. sort_result (SortCompare sortedBalances_compare)
             (filter (\<lambda>balance. js_gt (amount balance) (Num 0))
                (balancesWithPriority priorities balances)) ys \<and>
           formattedBalances rnd shortest prices ys = Inr out)"

section \<open>Sum to n\<close>

text \<open>
  The three functions are called on a non-negative integer \<open>n\<close>, and every value they
  compute is a non-negative integer-valued double, carried as a natural number. The sum
  of two such doubles is their exact sum rounded to 53 significant bits, ties to even.
\<close>

fun bitLength :: "nat \<Rightarrow> nat" where
  "bitLength n = (if n = 0 then 0 else Suc (bitLength (n div 2)))"

declare bitLength.simps [simp del]

definition roundToDouble :: "nat \<Rightarrow> nat" where
  "roundToDouble m =
     (if m < 2 ^ 53 then m
      else let e = bitLength m - 53;
               q = m div 2 ^ e;
               r = m mod 2 ^ e;
               h = 2 ^ e div 2
           in if r < h \<or> (r = h \<and> even q) then q * 2 ^ e else (q + 1) * 2 ^ e)"

definition js_add :: "nat \<Rightarrow> nat \<Rightarrow> nat" where
  "js_add x y = roundToDouble (x + y)"

text \<open>
  The \<^verbatim>\<open>for\<close> loop of \<^verbatim>\<open>sum_to_n_a\<close> (its variable \<^verbatim>\<open>sum\<close> is \<open>acc\<close> here); \<open>None\<close> is
  a loop that never ends.
\<close>

partial_function (option) sum_to_n_a_loop :: "nat \<Rightarrow> nat \<Rightarrow> nat \<Rightarrow> nat option" where
  "sum_to_n_a_loop n i acc =
     (if i \<le> n then sum_to_n_a_loop n (js_add i 1) (js_add acc i) else Some acc)"

definition sum_to_n_a :: "nat \<Rightarrow> nat option" where
  "sum_to_n_a n = sum_to_n_a_loop n 1 0"

text \<open>The \<^verbatim>\<open>while\<close> loop of \<^verbatim>\<open>sum_to_n_b\<close>.\<close>

partial_function (option) sum_to_n_b_loop :: "nat \<Rightarrow> nat \<Rightarrow> nat \<Rightarrow> nat option" where
  "sum_to_n_b_loop n acc i =
     (if i \<le> n then sum_to_n_b_loop n (js_add acc i) (js_add i 1) else Some acc)"

definition sum_to_n_b :: "nat \<Rightarrow> nat option" where
  "sum_to_n_b n = sum_to_n_b_loop n 0 1"

text \<open>
  \<^verbatim>\<open>Array.from({ length: n }, (_, i) => i + 1)\<close> constructs an \<^verbatim>\<open>Array\<close> of length \<open>n\<close>,
  which throws a RangeError when \<open>n\<close> is above \<open>2^32 - 1\<close>, and fills it with
  \<open>i + 1\<close> for each index \<open>i\<close>; \<^verbatim>\<open>reduce\<close> with the initial value 0 folds it from
  the left. An engine gives up on long arrays well below \<open>2^32 - 1\<close> elements: the
  parameter \<open>create\<close> says for each length whether the engine builds the array (\<open>None\<close>)
  or how it fails.
\<close>

definition sum_to_n_c :: "(nat \<Rightarrow> js_error option) \<Rightarrow> nat \<Rightarrow> js_error + nat" where
  "sum_to_n_c create n =
     (if n > 2 ^ 32 - 1 then Inl RangeError
      else case create n of
          Some e \<Rightarrow> Inl e
        | None \<Rightarrow>
            Inr (foldl (\<lambda>acc num. js_add acc num) 0 (map (\<lambda>i. js_add i 1) [0..<n])))"

section \<open>Properties of the sort\<close>

lemma set_sort_insert: "set (sort_insert cmp x ys) = insert x (set ys)"
  by (induction ys) auto

lemma set_Array_sort: "set (Array_sort cmp xs) = set xs"
  by (induction xs) (simp_all add: Array_sort_def set_sort_insert)

lemma mset_sort_insert: "mset (sort_insert cmp x ys) = add_mset x (mset ys)"
  by (induction ys) simp_all

lemma mset_Array_sort: "mset (Array_sort cmp xs) = mset xs"
  by (induction xs) (simp_all add: Array_sort_def mset_sort_insert)

lemma sort_result_set: "sort_result cmp xs ys \<Longrightarrow> set ys = set xs"
  by (auto simp: sort_result_def dest: mset_eq_setD)

text \<open>
  Where the comparison is that of a key on the elements of the array, the insertion
  sort is the library's stable sort by that key.
\<close>

lemma sort_insert_insort_key:
  assumes "\<forall>y \<in> set ys. cmp x y \<le> 0 \<longleftrightarrow> key x \<le> key y"
  shows "sort_insert cmp x ys = insort_key key x ys"
  using assms by (induction ys) simp_all

lemma Array_sort_sort_key:
  fixes key :: "'a \<Rightarrow> int"
  assumes "\<forall>x \<in> set xs. \<forall>y \<in> set xs. cmp x y \<le> 0 \<longleftrightarrow> key x \<le> key y"
  shows "Array_sort cmp xs = sort_key key xs"
  using assms
proof (induction xs)
  case Nil
  show ?case by (simp add: Array_sort_def)
next
  case (Cons x xs)
  then have rest: "Array_sort cmp xs = sort_key key xs"
    by simp
  have "Array_sort cmp (x # xs) = sort_insert cmp x (Array_sort cmp xs)"
    by (simp add: Array_sort_def)
  also have "\<dots> = insort_key key x (sort_key key xs)"
    unfolding rest using Cons.prems by (intro sort_insert_insort_key) simp
  finally show ?case by simp
qed

lemma keyed_sort_result:
  fixes key :: "'a \<Rightarrow> int"
  assumes le: "\<forall>x \<in> set xs. \<forall>y \<in> set xs. cmp x y \<le> 0 \<longleftrightarrow> key x \<le> key y"
    and eq: "\<forall>x \<in> set xs. \<forall>y \<in> set xs. cmp x y = 0 \<longleftrightarrow> key x = key y"
  shows "sorted_wrt (\<lambda>a b. cmp a b \<le> 0) (sort_key key xs) \<and>
    (\<forall>k \<in> set (sort_key key xs).
       filter (\<lambda>b. cmp k b = 0) (sort_key key xs) = filter (\<lambda>b. cmp k b = 0) xs)"
proof
  have "sorted_wrt (\<lambda>a b. key a \<le> key b) (sort_key key xs)"
    using sorted_sort_key [of key xs] by (simp add: sorted_map)
  then show "sorted_wrt (\<lambda>a b. cmp a b \<le> 0) (sort_key key xs)"
    by (rule sorted_wrt_mono_rel [rotated]) (use le in simp)
next
  show "\<forall>k \<in> set (sort_key key xs).
       filter (\<lambda>b. cmp k b = 0) (sort_key key xs) = filter (\<lambda>b. cmp k b = 0) xs"
  proof
    fix k
    assume "k \<in> set (sort_key key xs)"
    then have k: "k \<in> set xs"
      by simp
    have "filter (\<lambda>b. cmp k b = 0) (sort_key key xs) =
          filter (\<lambda>b. key b = key k) (sort_key key xs)"
      by (rule filter_cong) (use k eq in auto)
    also have "\<dots> = filter (\<lambda>b. key b = key k) xs"
      by (rule sort_key_stable)
    also have "\<dots> = filter (\<lambda>b. cmp k b = 0) xs"
      by (rule filter_cong) (use k eq in auto)
    finally show "filter (\<lambda>b. cmp k b = 0) (sort_key key xs) = filter (\<lambda>b. cmp k b = 0) xs" .
  qed
qed

text \<open>The comparator of \<^verbatim>\<open>sortedBalances\<close> as the sort reads it.\<close>

lemma SortCompare_values:
  "priority a = Value p \<Longrightarrow> priority b = Value q \<Longrightarrow>
   SortCompare sortedBalances_compare a b = (if q < p then - 1 else if q = p then 0 else 1)"
  by (simp add: SortCompare_def sortedBalances_compare_def)

lemma SortCompare_member_left:
  "priority a = Member m \<Longrightarrow> SortCompare sortedBalances_compare a b = 0"
  by (cases "priority b") (simp_all add: SortCompare_def sortedBalances_compare_def)

lemma SortCompare_member_right:
  "priority b = Member m \<Longrightarrow> SortCompare sortedBalances_compare a b = 0"
  by (cases "priority a") (simp_all add: SortCompare_def sortedBalances_compare_def)

lemma consistent_has_key:
  assumes "consistent_comparator (SortCompare sortedBalances_compare) (set xs)"
  shows "\<exists>key :: PrioritizedBalance \<Rightarrow> int.
    (\<forall>x \<in> set xs. \<forall>y \<in> set xs.
       SortCompare sortedBalances_compare x y \<le> 0 \<longleftrightarrow> key x \<le> key y) \<and>
    (\<forall>x \<in> set xs. \<forall>y \<in> set xs.
       SortCompare sortedBalances_compare x y = 0 \<longleftrightarrow> key x = key y)"
proof (cases "\<exists>z \<in> set xs. \<exists>m. priority z = Member m")
  case False
  then have all_values: "\<And>x. x \<in> set xs \<Longrightarrow> \<exists>p. priority x = Value p"
    by (metis resolved.exhaust)
  let ?key = "\<lambda>x. case priority x of Value p \<Rightarrow> - p | Member m \<Rightarrow> 0"
  have "(SortCompare sortedBalances_compare x y \<le> 0 \<longleftrightarrow> ?key x \<le> ?key y) \<and>
        (SortCompare sortedBalances_compare x y = 0 \<longleftrightarrow> ?key x = ?key y)"
    if "x \<in> set xs" "y \<in> set xs" for x y
  proof -
    from that all_values obtain p q where "priority x = Value p" "priority y = Value q"
      by blast
    then show ?thesis
      by (auto simp: SortCompare_values)
  qed
  then show ?thesis
    by (intro exI [of _ ?key]) blast
next
  case True
  then obtain z m where z: "z \<in> set xs" "priority z = Member m"
    by blast
  have "SortCompare sortedBalances_compare x y = 0" if "x \<in> set xs" "y \<in> set xs" for x y
  proof -
    have "SortCompare sortedBalances_compare x z = 0"
      and "SortCompare sortedBalances_compare z y = 0"
      using z(2) by (simp_all add: SortCompare_member_left SortCompare_member_right)
    with assms that z(1) show ?thesis
      unfolding consistent_comparator_def by blast
  qed
  then show ?thesis
    by (intro exI [of _ "\<lambda>x. 0"]) simp
qed

text \<open>The insertion sort is one of the engines ECMAScript permits.\<close>

lemma Array_sort_permitted:
  "sort_result (SortCompare sortedBalances_compare) xs
     (Array_sort (SortCompare sortedBalances_compare) xs)"
proof -
  let ?cmp = "SortCompare sortedBalances_compare"
  have "sorted_wrt (\<lambda>a b. ?cmp a b \<le> 0) (Array_sort ?cmp xs) \<and>
    (\<forall>k \<in> set (Array_sort ?cmp xs).
       filter (\<lambda>b. ?cmp k b = 0) (Array_sort ?cmp xs) = filter (\<lambda>b. ?cmp k b = 0) xs)"
    if "consistent_comparator ?cmp (set xs)"
  proof -
    from consistent_has_key [OF that] obtain key :: "PrioritizedBalance \<Rightarrow> int"
      where le: "\<forall>x \<in> set xs. \<forall>y \<in> set xs. ?cmp x y \<le> 0 \<longleftrightarrow> key x \<le> key y"
        and eq: "\<forall>x \<in> set xs. \<forall>y \<in> set xs. ?cmp x y = 0 \<longleftrightarrow> key x = key y"
      by blast
    from le have "Array_sort ?cmp xs = sort_key key xs"
      by (rule Array_sort_sort_key)
    with keyed_sort_result [OF le eq] show ?thesis
      by simp
  qed
  then show ?thesis
    by (simp add: sort_result_def mset_Array_sort)
qed

section \<open>Comparisons\<close>

lemma js_gt_not_le: "js_gt x y \<Longrightarrow> \<not> js_le x y"
  by (simp add: js_gt_def js_le_def)

lemma js_le_not_gt: "js_le x y \<Longrightarrow> \<not> js_gt x y"
  by (simp add: js_gt_def js_le_def)

section \<open>The map over the sorted records\<close>

lemma map_throwing_Inr:
  assumes "\<And>x. f x = Inr (g x)"
  shows "map_throwing f xs = Inr (map g xs)"
  by (induction xs) (simp_all add: assms)

lemma toFixed_2: "toFixed shortest 2 x = Inr (toFixed_string shortest 2 x)"
  by (simp add: toFixed_def)

lemma formattedBalances_Inr:
  "formattedBalances rnd shortest prices bs =
     Inr (map (\<lambda>b. \<lparr>currency = currency b, amount = amount b, blockchain = blockchain b,
                     priority = priority b,
                     formatted = toFixed_string shortest 2 (amount b),
                     usdValue =
                       js_mul rnd (ToNumber (nullish_coalesce (Get prices (currency b)) (Num 0)))
                         (amount b)\<rparr>) bs)"
  unfolding formattedBalances_def
  by (rule map_throwing_Inr [where f = "formatBalance rnd shortest prices"])
    (simp add: formatBalance_def toFixed_2)

lemma OptimizedWalletPage_Inr:
  "OptimizedWalletPage rnd shortest priorities prices balances =
     Inr (map (\<lambda>b. \<lparr>currency = currency b, amount = amount b, blockchain = blockchain b,
                     priority = priority b,
                     formatted = toFixed_string shortest 2 (amount b),
                     usdValue =
                       js_mul rnd (ToNumber (nullish_coalesce (Get prices (currency b)) (Num 0)))
                         (amount b)\<rparr>)
            (sortedBalances (balancesWithPriority priorities balances)))"
  by (simp add: OptimizedWalletPage_def formattedBalances_Inr)

text \<open>What the engine with the insertion sort returns is permitted on every engine.\<close>

lemma OptimizedWalletPage_permitted:
  "OptimizedWalletPage rnd shortest priorities prices balances = Inr out \<Longrightarrow>
   OptimizedWalletPage_rel rnd shortest priorities prices balances out"
  unfolding OptimizedWalletPage_rel_def OptimizedWalletPage_def sortedBalances_def
  using Array_sort_permitted by blast

text \<open>
  Every permitted output is the formatted records of some arrangement of the records
  with a positive amount.
\<close>

lemma OptimizedWalletPage_rel_elements:
  assumes "OptimizedWalletPage_rel rnd shortest priorities prices balances out"
  obtains ys where
    "mset ys = mset (filter (\<lambda>b. js_gt (amount b) (Num 0))
                      (balancesWithPriority priorities balances))"
    and "out = map (\<lambda>b. \<lparr>currency = currency b, amount = amount b, blockchain = blockchain b,
                     priority = priority b,
                     formatted = toFixed_string shortest 2 (amount b),
                     usdValue =
                       js_mul rnd (ToNumber (nullish_coalesce (Get prices (currency b)) (Num 0)))
                         (amount b)\<rparr>) ys"
  using assms
  by (auto simp: OptimizedWalletPage_rel_def sort_result_def formattedBalances_Inr)

section \<open>Evaluation on concrete inputs\<close>

lemma floor_numeral_divide:
  "\<lfloor>numeral a / numeral b :: rat\<rfloor> = numeral a div numeral b"
  using floor_divide_of_int_eq [of "numeral a" "numeral b", where ?'a = rat] by simp

lemma decimalDigits_numeral:
  "decimalDigits (numeral k) =
     (if numeral k < (10::nat) then [digitChar (numeral k)]
      else decimalDigits (numeral k div 10) @ [digitChar (numeral k mod 10)])"
  by (rule decimalDigits.simps)

lemma decimalDigits_0: "decimalDigits 0 = [digitChar 0]"
  by (subst decimalDigits.simps) simp

lemma decimalDigits_1: "decimalDigits 1 = [digitChar 1]" "decimalDigits (Suc 0) = [digitChar 1]"
  by (subst decimalDigits.simps, simp)+

lemmas toFixed_eval = toFixed_def toFixed_string_def toFixed_finite_def
  toString_exponential_def digitChar_def
  decimalDigits_numeral decimalDigits_0 decimalDigits_1 floor_numeral_divide Let_def

lemmas wallet_eval = OptimizedWalletPage_def formattedBalances_def formatBalance_def
  sortedBalances_def balancesWithPriority_def Array_sort_def SortCompare_def
  sortedBalances_compare_def getPriority_def Get_def nullish_coalesce_def
  Object_prototype_names_def BLOCKCHAIN_PRIORITIES_def BLOCKCHAIN_PRIORITIES_entries_def
  js_gt_def js_le_def toFixed_eval

lemma example_run:
  "OptimizedWalletPage Num (\<lambda>x. (1, 22)) BLOCKCHAIN_PRIORITIES
     [''OSMO'' \<mapsto> Num (5 / 2), ''NEO'' \<mapsto> Num 15]
     [\<lparr>currency = ''NEO'', amount = Num (51 / 2), blockchain = ''Neo''\<rparr>,
      \<lparr>currency = ''USDT'', amount = Num 0, blockchain = ''Ethereum''\<rparr>,
      \<lparr>currency = ''ZIL'', amount = Num 1000, blockchain = ''Zilliqa''\<rparr>,
      \<lparr>currency = ''DOGE'', amount = Num (- 10), blockchain = ''Dogecoin''\<rparr>,
      \<lparr>currency = ''OSMO'', amount = Num (201 / 2), blockchain = ''Osmosis''\<rparr>]
   = Inr [\<lparr>currency = ''OSMO'', amount = Num (201 / 2), blockchain = ''Osmosis'',
           priority = Value 100, formatted = ''100.50'', usdValue = Num (1005 / 4)\<rparr>,
          \<lparr>currency = ''NEO'', amount = Num (51 / 2), blockchain = ''Neo'',
           priority = Value 20, formatted = ''25.50'', usdValue = Num (765 / 2)\<rparr>,
          \<lparr>currency = ''ZIL'', amount = Num 1000, blockchain = ''Zilliqa'',
           priority = Value 20, formatted = ''1000.00'', usdValue = Num 0\<rparr>]"
  by (simp add: wallet_eval)

section \<open>The optimized pipeline\<close>

text \<open>
  C1. For every input list of balance records (and every price and priority table), the
  pipeline returns, and every element of its output has \<^verbatim>\<open>amount > 0\<close>; no element has
  \<^verbatim>\<open>amount <= 0\<close>. Records with a zero, negative or NaN amount are excluded. This holds
  of the output of the engine with the insertion sort and of every output an engine may
  give.
\<close>

theorem output_amounts_positive:
  "(\<exists>out. OptimizedWalletPage rnd shortest priorities prices balances = Inr out \<and>
          (\<forall>e \<in> set out. js_gt (amount e) (Num 0) \<and> \<not> js_le (amount e) (Num 0))) \<and>
   (\<forall>out. OptimizedWalletPage_rel rnd shortest priorities prices balances out \<longrightarrow>
          (\<forall>e \<in> set out. js_gt (amount e) (Num 0) \<and> \<not> js_le (amount e) (Num 0)))"
proof -
  have permitted: "\<forall>e \<in> set out. js_gt (amount e) (Num 0) \<and> \<not> js_le (amount e) (Num 0)"
    if "OptimizedWalletPage_rel rnd shortest priorities prices balances out" for out
  proof -
    from that obtain ys where
      ys: "mset ys = mset (filter (\<lambda>b. js_gt (amount b) (Num 0))
                      (balancesWithPriority priorities balances))"
      and out: "out = map (\<lambda>b. \<lparr>currency = currency b, amount = amount b,
                     blockchain = blockchain b, priority = priority b,
                     formatted = toFixed_string shortest 2 (amount b),
                     usdValue =
                       js_mul rnd (ToNumber (nullish_coalesce (Get prices (currency b)) (Num 0)))
                         (amount b)\<rparr>) ys"
      by (rule OptimizedWalletPage_rel_elements)
    from mset_eq_setD [OF ys] have "\<forall>b \<in> set ys. js_gt (amount b) (Num 0)"
      by simp
    then show ?thesis
      by (auto simp: out js_gt_not_le)
  qed
  obtain out where run: "OptimizedWalletPage rnd shortest priorities prices balances = Inr out"
    by (simp add: OptimizedWalletPage_Inr)
  then have "OptimizedWalletPage_rel rnd shortest priorities prices balances out"
    by (rule OptimizedWalletPage_permitted)
  with permitted run show ?thesis
    by blast
qed

text \<open>The run of the example: three of the five records are kept, each with a positive amount.\<close>

theorem output_amounts_positive_witness:
  "OptimizedWalletPage Num (\<lambda>x. (1, 22)) BLOCKCHAIN_PRIORITIES
     [''OSMO'' \<mapsto> Num (5 / 2), ''NEO'' \<mapsto> Num 15]
     [\<lparr>currency = ''NEO'', amount = Num (51 / 2), blockchain = ''Neo''\<rparr>,
      \<lparr>currency = ''USDT'', amount = Num 0, blockchain = ''Ethereum''\<rparr>,
      \<lparr>currency = ''ZIL'', amount = Num 1000, blockchain = ''Zilliqa''\<rparr>,
      \<lparr>currency = ''DOGE'', amount = Num (- 10), blockchain = ''Dogecoin''\<rparr>,
      \<lparr>currency = ''OSMO'', amount = Num (201 / 2), blockchain = ''Osmosis''\<rparr>]
   = Inr [\<lparr>currency = ''OSMO'', amount = Num (201 / 2), blockchain = ''Osmosis'',
           priority = Value 100, formatted = ''100.50'', usdValue = Num (1005 / 4)\<rparr>,
          \<lparr>currency = ''NEO'', amount = Num (51 / 2), blockchain = ''Neo'',
           priority = Value 20, formatted = ''25.50'', usdValue = Num (765 / 2)\<rparr>,
          \<lparr>currency = ''ZIL'', amount = Num 1000, blockchain = ''Zilliqa'',
           priority = Value 20, formatted = ''1000.00'', usdValue = Num 0\<rparr>] \<and>
   OptimizedWalletPage_rel Num (\<lambda>x. (1, 22)) BLOCKCHAIN_PRIORITIES
     [''OSMO'' \<mapsto> Num (5 / 2), ''NEO'' \<mapsto> Num 15]
     [\<lparr>currency = ''NEO'', amount = Num (51 / 2), blockchain = ''Neo''\<rparr>,
      \<lparr>currency = ''USDT'', amount = Num 0, blockchain = ''Ethereum''\<rparr>,
      \<lparr>currency = ''ZIL'', amount = Num 1000, blockchain = ''Zilliqa''\<rparr>,
      \<lparr>currency = ''DOGE'', amount = Num (- 10), blockchain = ''Dogecoin''\<rparr>,
      \<lparr>currency = ''OSMO'', amount = Num (201 / 2), blockchain = ''Osmosis''\<rparr>]
     [\<lparr>currency = ''OSMO'', amount = Num (201 / 2), blockchain = ''Osmosis'',
       priority = Value 100, formatted = ''100.50'', usdValue = Num (1005 / 4)\<rparr>,
      \<lparr>currency = ''NEO'', amount = Num (51 / 2), blockchain = ''Neo'',
       priority = Value 20, formatted = ''25.50'', usdValue = Num (765 / 2)\<rparr>,
      \<lparr>currency = ''ZIL'', amount = Num 1000, blockchain = ''Zilliqa'',
       priority = Value 20, formatted = ''1000.00'', usdValue = Num 0\<rparr>] \<and>
   js_gt (Num (201 / 2)) (Num 0) \<and> js_gt (Num (51 / 2)) (Num 0) \<and> js_gt (Num 1000) (Num 0) \<and>
   \<not> js_le (Num (201 / 2)) (Num 0) \<and> \<not> js_le (Num (51 / 2)) (Num 0) \<and>
   \<not> js_le (Num 1000) (Num 0)"
  using output_amounts_positive [of Num "\<lambda>x. (1, 22)" BLOCKCHAIN_PRIORITIES
      "[''OSMO'' \<mapsto> Num (5 / 2), ''NEO'' \<mapsto> Num 15]"
      "[\<lparr>currency = ''NEO'', amount = Num (51 / 2), blockchain = ''Neo''\<rparr>,
        \<lparr>currency = ''USDT'', amount = Num 0, blockchain = ''Ethereum''\<rparr>,
        \<lparr>currency = ''ZIL'', amount = Num 1000, blockchain = ''Zilliqa''\<rparr>,
        \<lparr>currency = ''DOGE'', amount = Num (- 10), blockchain = ''Dogecoin''\<rparr>,
        \<lparr>currency = ''OSMO'', amount = Num (201 / 2), blockchain = ''Osmosis''\<rparr>]"]
    OptimizedWalletPage_permitted [OF example_run]
  unfolding example_run by simp

text \<open>
  C3. For every pair of records whose resolved priorities are equal, the comparator of
  \<^verbatim>\<open>sortedBalances\<close> returns exactly 0 (a number on every path, never undefined).
\<close>

theorem comparator_zero_on_equal_priority:
  "priority a = priority b \<Longrightarrow> sortedBalances_compare a b = Num 0"
  by (simp add: sortedBalances_compare_def)

text \<open>Two records of priority 20 compare as 0.\<close>

theorem comparator_zero_on_equal_priority_witness:
  "priority \<lparr>currency = ''NEO'', amount = Num (51 / 2), blockchain = ''Neo'',
              priority = Value 20\<rparr> =
     priority \<lparr>currency = ''ZIL'', amount = Num 1000, blockchain = ''Zilliqa'',
                priority = Value 20\<rparr> \<and>
   sortedBalances_compare
     \<lparr>currency = ''NEO'', amount = Num (51 / 2), blockchain = ''Neo'', priority = Value 20\<rparr>
     \<lparr>currency = ''ZIL'', amount = Num 1000, blockchain = ''Zilliqa'', priority = Value 20\<rparr>
   = Num 0"
  using comparator_zero_on_equal_priority
    [of "\<lparr>currency = ''NEO'', amount = Num (51 / 2), blockchain = ''Neo'',
           priority = Value 20\<rparr>"
        "\<lparr>currency = ''ZIL'', amount = Num 1000, blockchain = ''Zilliqa'',
           priority = Value 20\<rparr>"]
  by simp

section \<open>Priority resolution\<close>

lemma ran_BLOCKCHAIN_PRIORITIES: "ran BLOCKCHAIN_PRIORITIES = {100, 50, 30, 20}"
  unfolding BLOCKCHAIN_PRIORITIES_def BLOCKCHAIN_PRIORITIES_entries_def
  by (subst ran_distinct) auto

text \<open>
  C4 as stated fails twice. A chain absent from the reference table, such as Bitcoin, gets
  -99, and the lowest priority the table configures is 20, not -99. And the chain
  \<^verbatim>\<open>constructor\<close>, absent from the table as well, does not get -99: the read finds the
  member of \<^verbatim>\<open>Object.prototype\<close> of that name.
\<close>

theorem sentinel_is_not_lowest_configured:
  "BLOCKCHAIN_PRIORITIES ''Bitcoin'' = None \<and>
   getPriority BLOCKCHAIN_PRIORITIES ''Bitcoin'' = Value (- 99) \<and>
   Min (ran BLOCKCHAIN_PRIORITIES) = 20 \<and>
   getPriority BLOCKCHAIN_PRIORITIES ''Bitcoin'' \<noteq> Value (Min (ran BLOCKCHAIN_PRIORITIES)) \<and>
   BLOCKCHAIN_PRIORITIES ''constructor'' = None \<and>
   getPriority BLOCKCHAIN_PRIORITIES ''constructor'' = Member ''constructor'' \<and>
   getPriority BLOCKCHAIN_PRIORITIES ''constructor'' \<noteq> Value (- 99)"
  by (simp add: ran_BLOCKCHAIN_PRIORITIES getPriority_def Get_def nullish_coalesce_def
      Object_prototype_names_def)
    (simp add: BLOCKCHAIN_PRIORITIES_def BLOCKCHAIN_PRIORITIES_entries_def)

text \<open>
  C4, amended. Priority resolution returns the table's entry for a chain that the table
  has, and the sentinel -99 for a chain that is absent and is not the name of a member
  of \<^verbatim>\<open>Object.prototype\<close>; in the reference table that sentinel is strictly below every
  configured priority.
\<close>

theorem priority_resolution:
  "(priorities chain = Some p \<longrightarrow> getPriority priorities chain = Value p) \<and>
   (priorities chain = None \<and> chain \<notin> set Object_prototype_names \<longrightarrow>
      getPriority priorities chain = Value (- 99)) \<and>
   (BLOCKCHAIN_PRIORITIES chain = None \<and> chain \<notin> set Object_prototype_names \<longrightarrow>
      (\<exists>s. getPriority BLOCKCHAIN_PRIORITIES chain = Value s \<and>
           (\<forall>q \<in> ran BLOCKCHAIN_PRIORITIES. s < q)))"
  by (auto simp: getPriority_def Get_def nullish_coalesce_def ran_BLOCKCHAIN_PRIORITIES)

text \<open>Neo is configured with 20; Bitcoin is not configured and gets -99, below 20.\<close>

theorem priority_resolution_witness:
  "BLOCKCHAIN_PRIORITIES ''Neo'' = Some 20 \<and>
   getPriority BLOCKCHAIN_PRIORITIES ''Neo'' = Value 20 \<and>
   BLOCKCHAIN_PRIORITIES ''Bitcoin'' = None \<and> ''Bitcoin'' \<notin> set Object_prototype_names \<and>
   getPriority BLOCKCHAIN_PRIORITIES ''Bitcoin'' = Value (- 99) \<and>
   20 \<in> ran BLOCKCHAIN_PRIORITIES \<and> (- 99 :: int) < 20"
proof -
  have neo: "BLOCKCHAIN_PRIORITIES ''Neo'' = Some 20"
    and btc: "BLOCKCHAIN_PRIORITIES ''Bitcoin'' = None"
    by (simp_all add: BLOCKCHAIN_PRIORITIES_def BLOCKCHAIN_PRIORITIES_entries_def)
  have name: "''Bitcoin'' \<notin> set Object_prototype_names"
    by (simp add: Object_prototype_names_def)
  have conf: "20 \<in> ran BLOCKCHAIN_PRIORITIES"
    by (simp add: ran_BLOCKCHAIN_PRIORITIES)
  from neo btc name conf show ?thesis
    using priority_resolution [of BLOCKCHAIN_PRIORITIES "''Neo''" 20]
      priority_resolution [of BLOCKCHAIN_PRIORITIES "''Bitcoin''" 20]
    by simp
qed

section \<open>The problematic page\<close>

lemmas problematic_eval = problematic_sortedBalances_def problematic_filter_def
  problematic_compare_def problematic_getPriority_def Array_sort_def js_le_def js_gt_def Let_def

lemma problematic_example_run:
  "problematic_sortedBalances
     [\<lparr>currency = ''OSMO'', amount = Num (201 / 2), blockchain = ''Osmosis''\<rparr>,
      \<lparr>currency = ''ARB'', amount = Num 50, blockchain = ''Arbitrum''\<rparr>,
      \<lparr>currency = ''USDT'', amount = Num 0, blockchain = ''Ethereum''\<rparr>,
      \<lparr>currency = ''DOGE'', amount = Num (- 10), blockchain = ''Dogecoin''\<rparr>]
   = [\<lparr>currency = ''USDT'', amount = Num 0, blockchain = ''Ethereum''\<rparr>]"
  by (simp add: problematic_eval)

text \<open>
  C8. The filter of the problematic page keeps a record only when its amount is
  \<^verbatim>\<open><= 0\<close> (and its chain has a priority above -99), so its output is empty or holds
  only records with amount \<^verbatim>\<open><= 0\<close>, and never equals a non-empty list of records with
  positive amounts.
\<close>

theorem problematic_output_nonpositive:
  "(\<forall>b \<in> set (problematic_sortedBalances balances).
      js_le (amount b) (Num 0) \<and> \<not> js_gt (amount b) (Num 0)) \<and>
   (\<forall>ys. ys \<noteq> [] \<and> (\<forall>b \<in> set ys. js_gt (amount b) (Num 0)) \<longrightarrow>
      problematic_sortedBalances balances \<noteq> ys)"
proof -
  have kept: "\<forall>b \<in> set (problematic_sortedBalances balances).
      js_le (amount b) (Num 0) \<and> \<not> js_gt (amount b) (Num 0)"
    by (auto simp: problematic_sortedBalances_def set_Array_sort problematic_filter_def
        Let_def js_le_not_gt split: if_splits)
  have "problematic_sortedBalances balances \<noteq> ys"
    if "ys \<noteq> []" and "\<forall>b \<in> set ys. js_gt (amount b) (Num 0)" for ys
  proof
    assume eq: "problematic_sortedBalances balances = ys"
    from that(1) obtain b where "b \<in> set ys"
      by (cases ys) auto
    with kept that(2) eq show False
      by auto
  qed
  with kept show ?thesis
    by blast
qed

text \<open>
  Four of the mock balances: the page shows the one with amount 0, which is not the
  optimized page's non-empty list of positive amounts.
\<close>

theorem problematic_output_nonpositive_witness:
  "problematic_sortedBalances
     [\<lparr>currency = ''OSMO'', amount = Num (201 / 2), blockchain = ''Osmosis''\<rparr>,
      \<lparr>currency = ''ARB'', amount = Num 50, blockchain = ''Arbitrum''\<rparr>,
      \<lparr>currency = ''USDT'', amount = Num 0, blockchain = ''Ethereum''\<rparr>,
      \<lparr>currency = ''DOGE'', amount = Num (- 10), blockchain = ''Dogecoin''\<rparr>]
   = [\<lparr>currency = ''USDT'', amount = Num 0, blockchain = ''Ethereum''\<rparr>] \<and>
   js_le (Num 0) (Num 0) \<and> \<not> js_gt (Num 0) (Num 0) \<and>
   js_gt (Num (201 / 2)) (Num 0) \<and> js_gt (Num 50) (Num 0) \<and>
   problematic_sortedBalances
     [\<lparr>currency = ''OSMO'', amount = Num (201 / 2), blockchain = ''Osmosis''\<rparr>,
      \<lparr>currency = ''ARB'', amount = Num 50, blockchain = ''Arbitrum''\<rparr>,
      \<lparr>currency = ''USDT'', amount = Num 0, blockchain = ''Ethereum''\<rparr>,
      \<lparr>currency = ''DOGE'', amount = Num (- 10), blockchain = ''Dogecoin''\<rparr>]
   \<noteq> [\<lparr>currency = ''OSMO'', amount = Num (201 / 2), blockchain = ''Osmosis''\<rparr>,
       \<lparr>currency = ''ARB'', amount = Num 50, blockchain = ''Arbitrum''\<rparr>]"
proof -
  let ?bs = "[\<lparr>currency = ''OSMO'', amount = Num (201 / 2), blockchain = ''Osmosis''\<rparr>,
      \<lparr>currency = ''ARB'', amount = Num 50, blockchain = ''Arbitrum''\<rparr>,
      \<lparr>currency = ''USDT'', amount = Num 0, blockchain = ''Ethereum''\<rparr>,
      \<lparr>currency = ''DOGE'', amount = Num (- 10), blockchain = ''Dogecoin''\<rparr>]"
  let ?ys = "[\<lparr>currency = ''OSMO'', amount = Num (201 / 2), blockchain = ''Osmosis''\<rparr>,
       \<lparr>currency = ''ARB'', amount = Num 50, blockchain = ''Arbitrum''\<rparr>]"
  have pos: "?ys \<noteq> [] \<and> (\<forall>b \<in> set ?ys. js_gt (amount b) (Num 0))"
    by (simp add: js_gt_def)
  from problematic_output_nonpositive [of ?bs] pos
  have "problematic_sortedBalances ?bs \<noteq> ?ys"
    by blast
  moreover from problematic_output_nonpositive [of ?bs]
  have "\<forall>b \<in> set (problematic_sortedBalances ?bs).
      js_le (amount b) (Num 0) \<and> \<not> js_gt (amount b) (Num 0)"
    by blast
  then have "js_le (Num 0) (Num 0) \<and> \<not> js_gt (Num 0) (Num 0)"
    unfolding problematic_example_run by simp
  ultimately show ?thesis
    using problematic_example_run pos by simp
qed

section \<open>Failures\<close>

text \<open>An output record, cut back to the fields of a \<^verbatim>\<open>WalletBalance\<close>.\<close>

lemma truncate_formatted:
  "WalletBalance.truncate
     \<lparr>currency = currency b, amount = amount b, blockchain = blockchain b,
      priority = p, formatted = s, usdValue = u\<rparr> = WalletBalance.truncate b"
  by (simp add: WalletBalance.truncate_def)

lemma truncate_prioritized:
  "WalletBalance.truncate
     \<lparr>currency = currency b, amount = amount b, blockchain = blockchain b, priority = p\<rparr> =
   (b :: WalletBalance)"
  by (simp add: WalletBalance.truncate_def)

text \<open>
  What every arrangement \<open>ys\<close> of the records with a positive amount gives once it is
  formatted: the input records with a positive amount, none of them with a NaN amount.
\<close>

lemma truncate_kept:
  "map WalletBalance.truncate
     (filter (\<lambda>b. js_gt (amount b) (Num 0)) (balancesWithPriority priorities balances)) =
   filter (\<lambda>b. js_gt (amount b) (Num 0)) balances"
  by (induction balances) (simp_all add: balancesWithPriority_def truncate_prioritized)

lemma formatted_records_kept:
  assumes "mset ys = mset (filter (\<lambda>b. js_gt (amount b) (Num 0))
                      (balancesWithPriority priorities balances))"
  shows "mset (map WalletBalance.truncate
           (map (\<lambda>b. \<lparr>currency = currency b, amount = amount b, blockchain = blockchain b,
                     priority = priority b, formatted = f b, usdValue = u b\<rparr>) ys)) =
         mset (filter (\<lambda>b. js_gt (amount b) (Num 0)) balances)"
proof -
  have "map WalletBalance.truncate
           (map (\<lambda>b. \<lparr>currency = currency b, amount = amount b, blockchain = blockchain b,
                     priority = priority b, formatted = f b, usdValue = u b\<rparr>) ys) =
        map WalletBalance.truncate ys"
    by (simp add: truncate_formatted)
  moreover have "mset (map WalletBalance.truncate ys) =
        mset (map WalletBalance.truncate
          (filter (\<lambda>b. js_gt (amount b) (Num 0)) (balancesWithPriority priorities balances)))"
    using assms by (metis mset_map)
  ultimately show ?thesis
    by (simp only: truncate_kept)
qed

lemma kept_record:
  assumes "mset ys = mset (filter (\<lambda>b. js_gt (amount b) (Num 0))
                      (balancesWithPriority priorities balances))"
    and "b \<in> set ys"
  shows "js_gt (amount b) (Num 0)"
    and "priority b = getPriority priorities (blockchain b)"
proof -
  from mset_eq_setD [OF assms(1)] assms(2)
  have "b \<in> set (balancesWithPriority priorities balances)" and pos: "js_gt (amount b) (Num 0)"
    by simp_all
  then show "priority b = getPriority priorities (blockchain b)"
    by (auto simp: balancesWithPriority_def)
  from pos show "js_gt (amount b) (Num 0)" .
qed

lemma getPriority_absent:
  "priorities chain = None \<Longrightarrow> chain \<notin> set Object_prototype_names \<Longrightarrow>
   getPriority priorities chain = Value (- 99)"
  by (simp add: getPriority_def Get_def nullish_coalesce_def)

lemma price_absent:
  "prices c = None \<Longrightarrow> c \<notin> set Object_prototype_names \<Longrightarrow>
   ToNumber (nullish_coalesce (Get prices c) (Num 0)) = Num 0"
  by (simp add: Get_def nullish_coalesce_def)

text \<open>
  C6 as stated fails: the pipeline has no failure for a malformed amount. A record whose
  amount is NaN is dropped by the filter and the call returns normally.
\<close>

theorem NaN_amount_returns_normally:
  "OptimizedWalletPage Num (\<lambda>x. (1, 22)) BLOCKCHAIN_PRIORITIES Map.empty
     [\<lparr>currency = ''ETH'', amount = NaN, blockchain = ''Ethereum''\<rparr>] = Inr []"
  by (simp add: wallet_eval)

text \<open>
  C6, amended, for inputs whose amounts are of the declared type \<^verbatim>\<open>number\<close> (NaN and the
  infinities included). The pipeline has no failure for a malformed amount, and throws
  nothing: the call returns a list, on every engine. The records of the list are the
  input records whose amount is positive, so a record with a NaN amount is left out
  without any failure. A chain missing from the priority table gives priority -99 and a
  currency missing from the price table gives the price 0, neither thrown, when the
  name is not that of a member of \<^verbatim>\<open>Object.prototype\<close>.
\<close>

theorem pipeline_never_throws:
  "(\<exists>out. OptimizedWalletPage rnd shortest priorities prices balances = Inr out \<and>
          OptimizedWalletPage_rel rnd shortest priorities prices balances out) \<and>
   (\<forall>ys. \<exists>out. formattedBalances rnd shortest prices ys = Inr out) \<and>
   (\<forall>out. OptimizedWalletPage_rel rnd shortest priorities prices balances out \<longrightarrow>
      mset (map WalletBalance.truncate out) =
        mset (filter (\<lambda>b. js_gt (amount b) (Num 0)) balances) \<and>
      (\<forall>e \<in> set out.
         amount e \<noteq> NaN \<and>
         (priorities (blockchain e) = None \<and> blockchain e \<notin> set Object_prototype_names \<longrightarrow>
            priority e = Value (- 99)) \<and>
         (prices (currency e) = None \<and> currency e \<notin> set Object_prototype_names \<longrightarrow>
            usdValue e = js_mul rnd (Num 0) (amount e))))"
proof -
  have returns: "\<exists>out. OptimizedWalletPage rnd shortest priorities prices balances = Inr out \<and>
          OptimizedWalletPage_rel rnd shortest priorities prices balances out"
    using OptimizedWalletPage_permitted by (simp add: OptimizedWalletPage_Inr)
  have formats: "\<forall>ys. \<exists>out. formattedBalances rnd shortest prices ys = Inr out"
    by (simp add: formattedBalances_Inr)
  have "mset (map WalletBalance.truncate out) =
        mset (filter (\<lambda>b. js_gt (amount b) (Num 0)) balances) \<and>
      (\<forall>e \<in> set out.
         amount e \<noteq> NaN \<and>
         (priorities (blockchain e) = None \<and> blockchain e \<notin> set Object_prototype_names \<longrightarrow>
            priority e = Value (- 99)) \<and>
         (prices (currency e) = None \<and> currency e \<notin> set Object_prototype_names \<longrightarrow>
            usdValue e = js_mul rnd (Num 0) (amount e)))"
    if "OptimizedWalletPage_rel rnd shortest priorities prices balances out" for out
  proof -
    from that obtain ys where
      ys: "mset ys = mset (filter (\<lambda>b. js_gt (amount b) (Num 0))
                      (balancesWithPriority priorities balances))"
      and out: "out = map (\<lambda>b. \<lparr>currency = currency b, amount = amount b,
                     blockchain = blockchain b, priority = priority b,
                     formatted = toFixed_string shortest 2 (amount b),
                     usdValue =
                       js_mul rnd (ToNumber (nullish_coalesce (Get prices (currency b)) (Num 0)))
                         (amount b)\<rparr>) ys"
      by (rule OptimizedWalletPage_rel_elements)
    have same: "mset (map WalletBalance.truncate out) =
        mset (filter (\<lambda>b. js_gt (amount b) (Num 0)) balances)"
      unfolding out using ys by (rule formatted_records_kept)
    have "amount b \<noteq> NaN \<and>
         (priorities (blockchain b) = None \<and> blockchain b \<notin> set Object_prototype_names \<longrightarrow>
            priority b = Value (- 99))"
      if "b \<in> set ys" for b
      using kept_record [OF ys that] by (auto simp: getPriority_absent js_gt_def)
    then have "\<forall>e \<in> set out.
         amount e \<noteq> NaN \<and>
         (priorities (blockchain e) = None \<and> blockchain e \<notin> set Object_prototype_names \<longrightarrow>
            priority e = Value (- 99)) \<and>
         (prices (currency e) = None \<and> currency e \<notin> set Object_prototype_names \<longrightarrow>
            usdValue e = js_mul rnd (Num 0) (amount e))"
      by (simp add: out price_absent)
    with same show ?thesis
      by blast
  qed
  with returns formats show ?thesis
    by blast
qed

text \<open>
  A NaN amount beside a valid one, with no price and no priority for the valid record:
  one record comes out, with priority -99 and the product with the price 0.
\<close>

theorem pipeline_never_throws_witness:
  "OptimizedWalletPage Num (\<lambda>x. (1, 22)) BLOCKCHAIN_PRIORITIES Map.empty
     [\<lparr>currency = ''ETH'', amount = NaN, blockchain = ''Ethereum''\<rparr>,
      \<lparr>currency = ''BTC'', amount = Num (1 / 8), blockchain = ''Bitcoin''\<rparr>]
   = Inr [\<lparr>currency = ''BTC'', amount = Num (1 / 8), blockchain = ''Bitcoin'',
           priority = Value (- 99), formatted = ''0.13'', usdValue = Num 0\<rparr>] \<and>
   OptimizedWalletPage_rel Num (\<lambda>x. (1, 22)) BLOCKCHAIN_PRIORITIES Map.empty
     [\<lparr>currency = ''ETH'', amount = NaN, blockchain = ''Ethereum''\<rparr>,
      \<lparr>currency = ''BTC'', amount = Num (1 / 8), blockchain = ''Bitcoin''\<rparr>]
     [\<lparr>currency = ''BTC'', amount = Num (1 / 8), blockchain = ''Bitcoin'',
       priority = Value (- 99), formatted = ''0.13'', usdValue = Num 0\<rparr>] \<and>
   Num (1 / 8) \<noteq> NaN \<and> BLOCKCHAIN_PRIORITIES ''Bitcoin'' = None \<and>
   ''Bitcoin'' \<notin> set Object_prototype_names \<and> ''BTC'' \<notin> set Object_prototype_names \<and>
   js_mul Num (Num 0) (Num (1 / 8)) = Num 0"
proof -
  have run: "OptimizedWalletPage Num (\<lambda>x. (1, 22)) BLOCKCHAIN_PRIORITIES Map.empty
     [\<lparr>currency = ''ETH'', amount = NaN, blockchain = ''Ethereum''\<rparr>,
      \<lparr>currency = ''BTC'', amount = Num (1 / 8), blockchain = ''Bitcoin''\<rparr>]
   = Inr [\<lparr>currency = ''BTC'', amount = Num (1 / 8), blockchain = ''Bitcoin'',
           priority = Value (- 99), formatted = ''0.13'', usdValue = Num 0\<rparr>]"
    by (simp add: wallet_eval)
  show ?thesis
    using pipeline_never_throws [of Num "\<lambda>x. (1, 22)" BLOCKCHAIN_PRIORITIES Map.empty
      "[\<lparr>currency = ''ETH'', amount = NaN, blockchain = ''Ethereum''\<rparr>,
        \<lparr>currency = ''BTC'', amount = Num (1 / 8), blockchain = ''Bitcoin''\<rparr>]"]
      OptimizedWalletPage_permitted [OF run]
    unfolding run
    by (simp add: BLOCKCHAIN_PRIORITIES_def BLOCKCHAIN_PRIORITIES_entries_def
        Object_prototype_names_def)
qed

section \<open>Two decimal places\<close>

lemma decimalDigits_digit: "n < 10 \<Longrightarrow> decimalDigits n = [digitChar n]"
  by (subst decimalDigits.simps) simp

lemma decimalDigits_step:
  "10 \<le> n \<Longrightarrow> decimalDigits n = decimalDigits (n div 10) @ [digitChar (n mod 10)]"
  by (subst decimalDigits.simps) simp

lemma decimalDigits_nonempty: "decimalDigits n \<noteq> []"
  by (subst decimalDigits.simps) simp

lemma decimalDigits_hundreds:
  assumes "100 \<le> n"
  shows "decimalDigits n =
    decimalDigits (n div 100) @ [digitChar (n div 10 mod 10), digitChar (n mod 10)]"
proof -
  from assms have "10 \<le> n" and "10 \<le> n div 10"
    by simp_all
  then have "decimalDigits n =
    (decimalDigits (n div 10 div 10) @ [digitChar (n div 10 mod 10)]) @ [digitChar (n mod 10)]"
    by (simp add: decimalDigits_step [of n] decimalDigits_step [of "n div 10"])
  moreover have "n div 10 div 10 = n div 100"
    by (simp add: div_mult2_eq [symmetric])
  ultimately show ?thesis
    by simp
qed

lemma toFixed_finite_2:
  "toFixed_finite 2 x =
     (let n = nat \<lfloor>x * 100 + 1 / 2\<rfloor>
      in decimalDigits (n div 100) @ ''.'' @ [digitChar (n div 10 mod 10), digitChar (n mod 10)])"
proof -
  define n where "n = nat \<lfloor>x * 100 + 1 / 2\<rfloor>"
  have unfolded: "toFixed_finite 2 x =
     (let m = (if length (decimalDigits n) \<le> 2
               then replicate (3 - length (decimalDigits n)) (CHR ''0'') @ decimalDigits n
               else decimalDigits n)
      in take (length m - 2) m @ ''.'' @ drop (length m - 2) m)"
    by (simp add: toFixed_finite_def n_def Let_def)
  consider "n < 10" | "10 \<le> n" "n < 100" | "100 \<le> n"
    by linarith
  then have "toFixed_finite 2 x =
      decimalDigits (n div 100) @ ''.'' @ [digitChar (n div 10 mod 10), digitChar (n mod 10)]"
  proof cases
    case 1
    then show ?thesis
      by (subst unfolded)
        (simp add: decimalDigits_digit digitChar_def numeral_3_eq_3 numeral_2_eq_2)
  next
    case 2
    then have "decimalDigits n = [digitChar (n div 10), digitChar (n mod 10)]"
      by (simp add: decimalDigits_step [of n] decimalDigits_digit)
    with 2 show ?thesis
      by (subst unfolded)
        (simp add: decimalDigits_digit digitChar_def numeral_3_eq_3 numeral_2_eq_2)
  next
    case 3
    have "length (decimalDigits (n div 100)) \<noteq> 0"
      by (simp add: decimalDigits_nonempty)
    with 3 show ?thesis
      by (subst unfolded) (simp add: decimalDigits_hundreds)
  qed
  then show ?thesis
    by (simp add: n_def Let_def)
qed

lemma nearest_hundredth:
  fixes q :: rat
  assumes "0 \<le> q"
  shows "\<bar>of_nat (nat \<lfloor>q * 100 + 1 / 2\<rfloor>) / 100 - q\<bar> \<le> 1 / 200"
proof -
  define k :: rat where "k = of_int \<lfloor>q * 100 + 1 / 2\<rfloor>"
  from assms have "0 \<le> \<lfloor>q * 100 + 1 / 2\<rfloor>"
    by simp
  then have nat_k: "(of_nat (nat \<lfloor>q * 100 + 1 / 2\<rfloor>) :: rat) = k"
    by (simp add: k_def)
  have lower: "k \<le> q * 100 + 1 / 2" and upper: "q * 100 + 1 / 2 < k + 1"
    unfolding k_def by linarith+
  from lower have "k / 100 - q \<le> 1 / 200"
    by linarith
  moreover from upper have "- (k / 100 - q) \<le> 1 / 200"
    by linarith
  ultimately have "\<bar>k / 100 - q\<bar> \<le> 1 / 200"
    by (simp only: abs_le_iff)
  then show ?thesis
    by (simp only: nat_k)
qed

lemma toFixed_string_fixed:
  assumes "0 \<le> q" and "q < 10 ^ 21"
  shows "toFixed_string shortest 2 (Num q) =
     (let n = nat \<lfloor>q * 100 + 1 / 2\<rfloor>
      in decimalDigits (n div 100) @ ''.'' @ [digitChar (n div 10 mod 10), digitChar (n mod 10)])"
proof -
  from assms have "\<not> q < 0" and "\<bar>q\<bar> = q" and "\<not> 10 ^ 21 \<le> q"
    by simp_all
  then have "toFixed_string shortest 2 (Num q) = toFixed_finite 2 q"
    by (simp add: toFixed_string_def Let_def del: abs_of_nonneg)
  then show ?thesis
    by (simp only: toFixed_finite_2)
qed

lemma js_mul_commute: "js_mul rnd x y = js_mul rnd y x"
  by (cases x; cases y) (simp_all add: mult.commute)

lemma js_gt_zero_Num: "js_gt (Num q) (Num 0) \<longleftrightarrow> 0 < q"
  by (simp add: js_gt_def)

section \<open>Enrichment\<close>

text \<open>
  C5 as stated fails on two positive, finite amounts. The amount \<open>10^21\<close> is formatted
  by \<^verbatim>\<open>toFixed(2)\<close> as \<^verbatim>\<open>"1e+21"\<close>, which has no two decimal places (for this amount
  \<^verbatim>\<open>Number::toString\<close> has the digit 1 and the exponent 21). And the currency
  \<^verbatim>\<open>toString\<close>, absent from the price table, does not get the price 0: the read finds
  the member of \<^verbatim>\<open>Object.prototype\<close> of that name and \<^verbatim>\<open>usdValue\<close> is NaN, not 0.
\<close>

theorem large_amount_and_inherited_price:
  "OptimizedWalletPage Num (\<lambda>x. (1, 22)) BLOCKCHAIN_PRIORITIES Map.empty
     [\<lparr>currency = ''OSMO'', amount = Num 1000000000000000000000, blockchain = ''Osmosis''\<rparr>,
      \<lparr>currency = ''toString'', amount = Num 1, blockchain = ''Ethereum''\<rparr>]
   = Inr [\<lparr>currency = ''OSMO'', amount = Num 1000000000000000000000,
           blockchain = ''Osmosis'', priority = Value 100, formatted = ''1e+21'',
           usdValue = Num 0\<rparr>,
          \<lparr>currency = ''toString'', amount = Num 1, blockchain = ''Ethereum'',
           priority = Value 50, formatted = ''1.00'', usdValue = NaN\<rparr>] \<and>
   (1000000000000000000000 :: rat) = 10 ^ 21 \<and>
   Map.empty ''toString'' = (None :: number option)"
  by (simp add: wallet_eval)

text \<open>
  The two derived fields of an output record with a positive amount.
\<close>

lemma enriched_record:
  assumes positive: "js_gt (amount b) (Num 0)" and finite: "amount b = Num q"
  shows "(prices (currency b) = None \<and> currency b \<notin> set Object_prototype_names \<longrightarrow>
            js_mul rnd (amount b) (ToNumber (nullish_coalesce (Get prices (currency b)) (Num 0)))
              = Num 0) \<and>
         (q < 10 ^ 21 \<longrightarrow>
            (let n = nat \<lfloor>q * 100 + 1 / 2\<rfloor>
             in toFixed_string shortest 2 (amount b) =
                  decimalDigits (n div 100) @ ''.'' @
                    [digitChar (n div 10 mod 10), digitChar (n mod 10)] \<and>
                \<bar>of_nat n / 100 - q\<bar> \<le> 1 / 200))"
proof -
  from positive finite have "0 < q"
    by (simp add: js_gt_zero_Num)
  then have nonneg: "0 \<le> q"
    by simp
  have "toFixed_string shortest 2 (amount b) =
          (let n = nat \<lfloor>q * 100 + 1 / 2\<rfloor>
           in decimalDigits (n div 100) @ ''.'' @
                [digitChar (n div 10 mod 10), digitChar (n mod 10)])"
    if "q < 10 ^ 21"
    using finite toFixed_string_fixed [OF nonneg that] by simp
  then show ?thesis
    using nearest_hundredth [OF nonneg] finite by (simp add: Let_def price_absent)
qed

text \<open>
  C5, amended. The pipeline raises no error, and for every output element
  \<^verbatim>\<open>usdValue = amount * (prices[currency] ?? 0)\<close> and \<^verbatim>\<open>formatted = amount.toFixed(2)\<close>,
  on every engine. When the amount is finite, a currency that is absent from the price
  table and is not the name of a member of \<^verbatim>\<open>Object.prototype\<close> gives
  \<^verbatim>\<open>usdValue == 0\<close>; when the amount is finite and below \<open>10^21\<close>, \<^verbatim>\<open>formatted\<close> is the
  integer \<open>n\<close> nearest to \<open>100 * amount\<close> (the larger on a tie) written in fixed notation
  with exactly two digits after the point, so it is within 0.005 of the amount.
\<close>

theorem enrichment_values:
  "(\<exists>out. OptimizedWalletPage rnd shortest priorities prices balances = Inr out \<and>
          OptimizedWalletPage_rel rnd shortest priorities prices balances out) \<and>
   (\<forall>out. OptimizedWalletPage_rel rnd shortest priorities prices balances out \<longrightarrow>
     (\<forall>e \<in> set out.
        usdValue e =
          js_mul rnd (amount e) (ToNumber (nullish_coalesce (Get prices (currency e)) (Num 0))) \<and>
        formatted e = toFixed_string shortest 2 (amount e) \<and>
        (\<forall>q. amount e = Num q \<longrightarrow>
           (prices (currency e) = None \<and> currency e \<notin> set Object_prototype_names \<longrightarrow>
              usdValue e = Num 0) \<and>
           (q < 10 ^ 21 \<longrightarrow>
              (let n = nat \<lfloor>q * 100 + 1 / 2\<rfloor>
               in formatted e =
                    decimalDigits (n div 100) @ ''.'' @
                      [digitChar (n div 10 mod 10), digitChar (n mod 10)] \<and>
                  \<bar>of_nat n / 100 - q\<bar> \<le> 1 / 200)))))"
proof -
  have returns: "\<exists>out. OptimizedWalletPage rnd shortest priorities prices balances = Inr out \<and>
          OptimizedWalletPage_rel rnd shortest priorities prices balances out"
    using OptimizedWalletPage_permitted by (simp add: OptimizedWalletPage_Inr)
  have "\<forall>e \<in> set out.
        usdValue e =
          js_mul rnd (amount e) (ToNumber (nullish_coalesce (Get prices (currency e)) (Num 0))) \<and>
        formatted e = toFixed_string shortest 2 (amount e) \<and>
        (\<forall>q. amount e = Num q \<longrightarrow>
           (prices (currency e) = None \<and> currency e \<notin> set Object_prototype_names \<longrightarrow>
              usdValue e = Num 0) \<and>
           (q < 10 ^ 21 \<longrightarrow>
              (let n = nat \<lfloor>q * 100 + 1 / 2\<rfloor>
               in formatted e =
                    decimalDigits (n div 100) @ ''.'' @
                      [digitChar (n div 10 mod 10), digitChar (n mod 10)] \<and>
                  \<bar>of_nat n / 100 - q\<bar> \<le> 1 / 200)))"
    if "OptimizedWalletPage_rel rnd shortest priorities prices balances out" for out
  proof -
    from that obtain ys where
      ys: "mset ys = mset (filter (\<lambda>b. js_gt (amount b) (Num 0))
                      (balancesWithPriority priorities balances))"
      and out: "out = map (\<lambda>b. \<lparr>currency = currency b, amount = amount b,
                     blockchain = blockchain b, priority = priority b,
                     formatted = toFixed_string shortest 2 (amount b),
                     usdValue =
                       js_mul rnd (ToNumber (nullish_coalesce (Get prices (currency b)) (Num 0)))
                         (amount b)\<rparr>) ys"
      by (rule OptimizedWalletPage_rel_elements)
    have "(prices (currency b) = None \<and> currency b \<notin> set Object_prototype_names \<longrightarrow>
            js_mul rnd (amount b) (ToNumber (nullish_coalesce (Get prices (currency b)) (Num 0)))
              = Num 0) \<and>
         (q < 10 ^ 21 \<longrightarrow>
            (let n = nat \<lfloor>q * 100 + 1 / 2\<rfloor>
             in toFixed_string shortest 2 (amount b) =
                  decimalDigits (n div 100) @ ''.'' @
                    [digitChar (n div 10 mod 10), digitChar (n mod 10)] \<and>
                \<bar>of_nat n / 100 - q\<bar> \<le> 1 / 200))"
      if "b \<in> set ys" "amount b = Num q" for b q
      using kept_record(1) [OF ys that(1)] that(2) by (rule enriched_record)
    then show ?thesis
      unfolding out by (simp add: js_mul_commute [of rnd "ToNumber _"])
  qed
  with returns show ?thesis
    by blast
qed

text \<open>
  In the example ZIL has no price: its \<^verbatim>\<open>usdValue\<close> is 0 and its amount 1000 is
  formatted as \<^verbatim>\<open>"1000.00"\<close>.
\<close>

theorem enrichment_values_witness:
  "OptimizedWalletPage Num (\<lambda>x. (1, 22)) BLOCKCHAIN_PRIORITIES
     [''OSMO'' \<mapsto> Num (5 / 2), ''NEO'' \<mapsto> Num 15]
     [\<lparr>currency = ''NEO'', amount = Num (51 / 2), blockchain = ''Neo''\<rparr>,
      \<lparr>currency = ''USDT'', amount = Num 0, blockchain = ''Ethereum''\<rparr>,
      \<lparr>currency = ''ZIL'', amount = Num 1000, blockchain = ''Zilliqa''\<rparr>,
      \<lparr>currency = ''DOGE'', amount = Num (- 10), blockchain = ''Dogecoin''\<rparr>,
      \<lparr>currency = ''OSMO'', amount = Num (201 / 2), blockchain = ''Osmosis''\<rparr>]
   = Inr [\<lparr>currency = ''OSMO'', amount = Num (201 / 2), blockchain = ''Osmosis'',
           priority = Value 100, formatted = ''100.50'', usdValue = Num (1005 / 4)\<rparr>,
          \<lparr>currency = ''NEO'', amount = Num (51 / 2), blockchain = ''Neo'',
           priority = Value 20, formatted = ''25.50'', usdValue = Num (765 / 2)\<rparr>,
          \<lparr>currency = ''ZIL'', amount = Num 1000, blockchain = ''Zilliqa'',
           priority = Value 20, formatted = ''1000.00'', usdValue = Num 0\<rparr>] \<and>
   OptimizedWalletPage_rel Num (\<lambda>x. (1, 22)) BLOCKCHAIN_PRIORITIES
     [''OSMO'' \<mapsto> Num (5 / 2), ''NEO'' \<mapsto> Num 15]
     [\<lparr>currency = ''NEO'', amount = Num (51 / 2), blockchain = ''Neo''\<rparr>,
      \<lparr>currency = ''USDT'', amount = Num 0, blockchain = ''Ethereum''\<rparr>,
      \<lparr>currency = ''ZIL'', amount = Num 1000, blockchain = ''Zilliqa''\<rparr>,
      \<lparr>currency = ''DOGE'', amount = Num (- 10), blockchain = ''Dogecoin''\<rparr>,
      \<lparr>currency = ''OSMO'', amount = Num (201 / 2), blockchain = ''Osmosis''\<rparr>]
     [\<lparr>currency = ''OSMO'', amount = Num (201 / 2), blockchain = ''Osmosis'',
       priority = Value 100, formatted = ''100.50'', usdValue = Num (1005 / 4)\<rparr>,
      \<lparr>currency = ''NEO'', amount = Num (51 / 2), blockchain = ''Neo'',
       priority = Value 20, formatted = ''25.50'', usdValue = Num (765 / 2)\<rparr>,
      \<lparr>currency = ''ZIL'', amount = Num 1000, blockchain = ''Zilliqa'',
       priority = Value 20, formatted = ''1000.00'', usdValue = Num 0\<rparr>] \<and>
   [''OSMO'' \<mapsto> Num (5 / 2), ''NEO'' \<mapsto> Num 15] ''ZIL'' = None \<and>
   ''ZIL'' \<notin> set Object_prototype_names \<and>
   (1000 :: rat) < 10 ^ 21 \<and>
   js_mul Num (Num 1000) (Num 0) = Num 0 \<and>
   js_mul Num (Num (201 / 2)) (Num (5 / 2)) = Num (1005 / 4) \<and>
   toFixed_string (\<lambda>x. (1, 22)) 2 (Num 1000) = ''1000.00'' \<and>
   \<bar>of_nat (nat \<lfloor>(1000 :: rat) * 100 + 1 / 2\<rfloor>) / 100 - 1000\<bar> \<le> (1 / 200 :: rat)"
  using enrichment_values [of Num "\<lambda>x. (1, 22)" BLOCKCHAIN_PRIORITIES
      "[''OSMO'' \<mapsto> Num (5 / 2), ''NEO'' \<mapsto> Num 15]"
      "[\<lparr>currency = ''NEO'', amount = Num (51 / 2), blockchain = ''Neo''\<rparr>,
        \<lparr>currency = ''USDT'', amount = Num 0, blockchain = ''Ethereum''\<rparr>,
        \<lparr>currency = ''ZIL'', amount = Num 1000, blockchain = ''Zilliqa''\<rparr>,
        \<lparr>currency = ''DOGE'', amount = Num (- 10), blockchain = ''Dogecoin''\<rparr>,
        \<lparr>currency = ''OSMO'', amount = Num (201 / 2), blockchain = ''Osmosis''\<rparr>]"]
    OptimizedWalletPage_permitted [OF example_run]
  unfolding example_run by (simp add: toFixed_eval Object_prototype_names_def)

section \<open>The three sums\<close>

lemma bitLength_numeral:
  "bitLength (numeral (Num.Bit0 k)) = Suc (bitLength (numeral k))"
  "bitLength (numeral (Num.Bit1 k)) = Suc (bitLength (numeral k))"
  "bitLength 1 = 1"
  "bitLength (Suc 0) = 1"
  by (subst bitLength.simps, simp add: bitLength.simps)+

text \<open>Sums up to \<open>2^53\<close> are exact; the next integer, \<open>2^53 + 1\<close>, rounds back to \<open>2^53\<close>.\<close>

lemma roundToDouble_exact: "m \<le> 2 ^ 53 \<Longrightarrow> roundToDouble m = m"
proof (cases "m < 2 ^ 53")
  case True
  then show ?thesis
    by (simp add: roundToDouble_def)
next
  case False
  moreover assume "m \<le> 2 ^ 53"
  ultimately have "m = 9007199254740992"
    by simp
  then show ?thesis
    by (simp add: roundToDouble_def bitLength_numeral Let_def)
qed

lemma roundToDouble_stalls: "roundToDouble 9007199254740993 = 9007199254740992"
  by (simp add: roundToDouble_def bitLength_numeral Let_def)

lemma js_add_exact: "x + y \<le> 2 ^ 53 \<Longrightarrow> js_add x y = x + y"
  by (simp add: js_add_def roundToDouble_exact)

lemma js_add_one_bounded:
  assumes "i \<le> 2 ^ 53"
  shows "js_add i 1 \<le> 2 ^ 53"
proof (cases "i = 2 ^ 53")
  case True
  then show ?thesis
    by (simp add: js_add_def roundToDouble_stalls)
next
  case False
  with assms have "i + 1 \<le> 2 ^ 53"
    by simp
  then show ?thesis
    by (simp add: js_add_exact)
qed

text \<open>Below \<open>2^53\<close> the loop of \<^verbatim>\<open>sum_to_n_a\<close> ends, with the sum folded from the left.\<close>

lemma sum_to_n_a_loop_foldl:
  assumes "n < 2 ^ 53"
  shows "i \<le> Suc n \<Longrightarrow> sum_to_n_a_loop n i acc = Some (foldl js_add acc [i..<Suc n])"
proof (induction "Suc n - i" arbitrary: i acc)
  case 0
  then have "i = Suc n"
    by simp
  then show ?case
    by (subst sum_to_n_a_loop.simps) simp
next
  case (Suc k)
  then have "i \<le> n"
    by simp
  with assms have "i + 1 \<le> 2 ^ 53"
    by simp
  then have next_i: "js_add i 1 = Suc i"
    by (simp add: js_add_exact)
  from Suc.hyps(2) have "k = Suc n - Suc i"
    by simp
  with \<open>i \<le> n\<close> have "sum_to_n_a_loop n (Suc i) (js_add acc i) =
      Some (foldl js_add (js_add acc i) [Suc i..<Suc n])"
    by (intro Suc.hyps(1)) simp_all
  moreover from \<open>i \<le> n\<close> have "[i..<Suc n] = i # [Suc i..<Suc n]"
    by (simp add: upt_conv_Cons)
  ultimately show ?case
    using \<open>i \<le> n\<close> next_i by (subst sum_to_n_a_loop.simps) simp
qed

text \<open>
  From \<open>2^53\<close> on it does not: \<^verbatim>\<open>i++\<close> leaves \<open>i\<close> at \<open>2^53\<close>, which stays within \<open>n\<close>.
\<close>

lemma sum_to_n_a_loop_stalls:
  assumes "sum_to_n_a_loop n i acc = Some v"
  shows "\<not> (2 ^ 53 \<le> n \<and> i \<le> 2 ^ 53)"
proof (rule sum_to_n_a_loop.raw_induct
    [where P = "\<lambda>n i acc v. \<not> (2 ^ 53 \<le> n \<and> i \<le> 2 ^ 53)", OF _ assms])
  fix loop and n i acc v :: nat
  assume IH: "\<And>n i acc v. loop n i acc = Some v \<Longrightarrow> \<not> (2 ^ 53 \<le> n \<and> i \<le> 2 ^ 53)"
    and body: "(if i \<le> n then loop n (js_add i 1) (js_add acc i) else Some acc) = Some v"
  show "\<not> (2 ^ 53 \<le> n \<and> i \<le> 2 ^ 53)"
  proof
    assume large: "2 ^ 53 \<le> n \<and> i \<le> 2 ^ 53"
    then have "i \<le> n"
      by simp
    with body have "loop n (js_add i 1) (js_add acc i) = Some v"
      by simp
    then have "\<not> (2 ^ 53 \<le> n \<and> js_add i 1 \<le> 2 ^ 53)"
      by (rule IH)
    with large js_add_one_bounded [of i] show False
      by simp
  qed
qed

lemma sum_to_n_a_b_Some:
  assumes "sum_to_n_a_loop n i acc = Some v"
  shows "sum_to_n_b_loop n acc i = Some v"
proof (rule sum_to_n_a_loop.raw_induct
    [where P = "\<lambda>n i acc v. sum_to_n_b_loop n acc i = Some v", OF _ assms])
  fix loop n i acc v
  assume IH: "\<And>n i acc v. loop n i acc = Some v \<Longrightarrow> sum_to_n_b_loop n acc i = Some v"
    and body: "(if i \<le> n then loop n (js_add i 1) (js_add acc i) else Some acc) = Some v"
  show "sum_to_n_b_loop n acc i = Some v"
  proof (cases "i \<le> n")
    case True
    with body have "loop n (js_add i 1) (js_add acc i) = Some v"
      by simp
    then have "sum_to_n_b_loop n (js_add acc i) (js_add i 1) = Some v"
      by (rule IH)
    with True show ?thesis
      by (subst sum_to_n_b_loop.simps) simp
  next
    case False
    with body show ?thesis
      by (subst sum_to_n_b_loop.simps) simp
  qed
qed

lemma sum_to_n_b_a_Some:
  assumes "sum_to_n_b_loop n acc i = Some v"
  shows "sum_to_n_a_loop n i acc = Some v"
proof (rule sum_to_n_b_loop.raw_induct
    [where P = "\<lambda>n acc i v. sum_to_n_a_loop n i acc = Some v", OF _ assms])
  fix loop n acc i v
  assume IH: "\<And>n acc i v. loop n acc i = Some v \<Longrightarrow> sum_to_n_a_loop n i acc = Some v"
    and body: "(if i \<le> n then loop n (js_add acc i) (js_add i 1) else Some acc) = Some v"
  show "sum_to_n_a_loop n i acc = Some v"
  proof (cases "i \<le> n")
    case True
    with body have "loop n (js_add acc i) (js_add i 1) = Some v"
      by simp
    then have "sum_to_n_a_loop n (js_add i 1) (js_add acc i) = Some v"
      by (rule IH)
    with True show ?thesis
      by (subst sum_to_n_a_loop.simps) simp
  next
    case False
    with body show ?thesis
      by (subst sum_to_n_a_loop.simps) simp
  qed
qed

lemma sum_to_n_a_returns:
  "n < 2 ^ 53 \<Longrightarrow> sum_to_n_a n = Some (foldl js_add 0 [1..<Suc n])"
  unfolding sum_to_n_a_def by (rule sum_to_n_a_loop_foldl) simp_all

lemma sum_to_n_b_returns:
  "n < 2 ^ 53 \<Longrightarrow> sum_to_n_b n = Some (foldl js_add 0 [1..<Suc n])"
  using sum_to_n_a_b_Some [of n 1 0] sum_to_n_a_returns [of n]
  by (simp add: sum_to_n_a_def sum_to_n_b_def)

lemma sum_to_n_a_never_returns: "2 ^ 53 \<le> n \<Longrightarrow> sum_to_n_a n = None"
  using sum_to_n_a_loop_stalls [of n 1 0] by (cases "sum_to_n_a n") (auto simp: sum_to_n_a_def)

lemma sum_to_n_b_never_returns: "2 ^ 53 \<le> n \<Longrightarrow> sum_to_n_b n = None"
  using sum_to_n_a_loop_stalls [of n 1 0] sum_to_n_b_a_Some [of n 0 1]
  by (cases "sum_to_n_b n") (auto simp: sum_to_n_b_def)

lemma sum_to_n_c_foldl:
  assumes "n < 2 ^ 32" and "create n = None"
  shows "sum_to_n_c create n = Inr (foldl js_add 0 [1..<Suc n])"
proof -
  have "js_add i 1 = Suc i" if "i < n" for i
    using that assms(1) by (simp add: js_add_exact)
  then have "map (\<lambda>i. js_add i 1) [0..<n] = map Suc [0..<n]"
    by simp
  also have "\<dots> = [1..<Suc n]"
    by (simp add: map_Suc_upt)
  finally show ?thesis
    using assms by (simp add: sum_to_n_c_def)
qed

lemma foldl_js_add_exact:
  "acc + sum_list xs < 2 ^ 53 \<Longrightarrow> foldl js_add acc xs = acc + sum_list xs"
proof (induction xs arbitrary: acc)
  case Nil
  show ?case by simp
next
  case (Cons x xs)
  then have "js_add acc x = acc + x"
    by (simp add: js_add_exact)
  with Cons show ?case
    by (simp add: add.assoc)
qed

lemma sum_list_one_to_n: "sum_list [1..<Suc n] = \<Sum>{1..n}"
  by (simp only: sum_list_upt atLeastLessThanSuc_atLeastAtMost)

lemma gauss: "\<Sum>{1..n} = n * (n + 1) div 2" for n :: nat
  by (induction n) simp_all

lemma upt_last_two:
  "i \<le> Suc m \<Longrightarrow> [i..<Suc (Suc (Suc m))] = [i..<Suc m] @ [Suc m, Suc (Suc m)]"
  by simp

lemma sum_to_n_a_rounds:
  "sum_to_n_a 134217729 = Some 9007199456067584"
proof -
  have "sum_to_n_a 134217729 = Some (foldl js_add 0 [1..<Suc 134217729])"
    by (rule sum_to_n_a_returns) simp
  moreover have "[1..<Suc 134217729] = [1..<Suc 134217727] @ [134217728, 134217729]"
    using upt_last_two [of 1 134217727] by simp
  moreover have "foldl js_add 0 [1..<Suc 134217727] = 9007199187632128"
  proof -
    have "0 + sum_list [1..<Suc 134217727] < 2 ^ 53"
      by (simp only: sum_list_one_to_n gauss add_0) simp
    then have "foldl js_add 0 [1..<Suc 134217727] = 0 + sum_list [1..<Suc 134217727]"
      by (rule foldl_js_add_exact)
    then show ?thesis
      by (simp only: sum_list_one_to_n gauss add_0) simp
  qed
  moreover have "js_add 9007199187632128 134217728 = 9007199321849856"
    by (simp add: js_add_def roundToDouble_def bitLength_numeral Let_def)
  moreover have "js_add 9007199321849856 134217729 = 9007199456067584"
    by (simp add: js_add_def roundToDouble_def bitLength_numeral Let_def)
  ultimately show ?thesis
    by (simp only: foldl_append foldl.simps)
qed

text \<open>
  C9 as stated fails three times. At \<open>n = 134217729\<close> the sum exceeds \<open>2^53\<close> and is
  rounded: the loops return 9007199456067584, one less than \<open>1 + 2 + ... + n\<close>. At
  \<open>n = 2^32\<close> \<^verbatim>\<open>sum_to_n_c\<close> cannot build its array, whatever the engine, and throws a
  RangeError, where the loops return a number. And at \<open>n = 2^53\<close> the loops do not return.
\<close>

theorem sum_to_n_not_the_sum:
  "sum_to_n_a 134217729 = Some 9007199456067584 \<and>
   sum_to_n_b 134217729 = Some 9007199456067584 \<and>
   \<Sum>{1..134217729 :: nat} = 9007199456067585 \<and>
   sum_to_n_c (\<lambda>n. None) 4294967296 = Inl RangeError \<and>
   sum_to_n_a 4294967296 = Some (foldl js_add 0 [1..<4294967297]) \<and>
   sum_to_n_a 9007199254740992 = None \<and>
   sum_to_n_b 9007199254740992 = None"
proof -
  have "sum_to_n_a 4294967296 = Some (foldl js_add 0 [1..<Suc 4294967296])"
    by (rule sum_to_n_a_returns) simp
  then have "sum_to_n_a 4294967296 = Some (foldl js_add 0 [1..<4294967297])"
    by simp
  moreover have "sum_to_n_c (\<lambda>n. None) 4294967296 = Inl RangeError"
    by (simp add: sum_to_n_c_def)
  moreover have "\<Sum>{1..134217729 :: nat} = 9007199456067585"
    by (simp only: gauss) simp
  moreover have "sum_to_n_b 134217729 = Some 9007199456067584"
    using sum_to_n_a_b_Some [of 134217729 1 0] sum_to_n_a_rounds
    by (simp add: sum_to_n_a_def sum_to_n_b_def)
  moreover have "sum_to_n_a 9007199254740992 = None"
    by (rule sum_to_n_a_never_returns) simp
  moreover have "sum_to_n_b 9007199254740992 = None"
    by (rule sum_to_n_b_never_returns) simp
  ultimately show ?thesis
    using sum_to_n_a_rounds by simp
qed

text \<open>
  C9, amended. For every non-negative integer \<open>n\<close> below \<open>2^53\<close>, \<^verbatim>\<open>sum_to_n_a\<close> and
  \<^verbatim>\<open>sum_to_n_b\<close> return, and return the same number \<open>v\<close>; \<^verbatim>\<open>sum_to_n_c\<close> returns \<open>v\<close> as
  well when \<open>n\<close> is below \<open>2^32\<close> and the engine builds the array of \<open>n\<close> elements; and
  \<open>v\<close> is \<open>1 + 2 + ... + n\<close> (0 when \<open>n = 0\<close>) whenever that sum is below \<open>2^53\<close>, where
  every addition is exact. For \<open>n\<close> of \<open>2^53\<close> or more the two loops do not return. For
  \<open>n\<close> of \<open>2^32\<close> or more \<^verbatim>\<open>sum_to_n_c\<close> throws a RangeError, and for a smaller \<open>n\<close> whose
  array the engine does not build it fails as the engine does.
\<close>

theorem sum_to_n_agree:
  "(n < 2 ^ 53 \<longrightarrow>
      (\<exists>v. sum_to_n_a n = Some v \<and> sum_to_n_b n = Some v \<and>
           (n < 2 ^ 32 \<and> create n = None \<longrightarrow> sum_to_n_c create n = Inr v) \<and>
           (n * (n + 1) div 2 < 2 ^ 53 \<longrightarrow> v = \<Sum>{1..n}))) \<and>
   (2 ^ 53 \<le> n \<longrightarrow> sum_to_n_a n = None \<and> sum_to_n_b n = None) \<and>
   (2 ^ 32 \<le> n \<longrightarrow> sum_to_n_c create n = Inl RangeError) \<and>
   (\<forall>e. n < 2 ^ 32 \<and> create n = Some e \<longrightarrow> sum_to_n_c create n = Inl e)"
proof -
  have too_long: "sum_to_n_c create n = Inl RangeError" if "2 ^ 32 \<le> n"
    using that by (simp add: sum_to_n_c_def)
  have refused: "sum_to_n_c create n = Inl e" if "n < 2 ^ 32" "create n = Some e" for e
    using that by (simp add: sum_to_n_c_def)
  have "\<exists>v. sum_to_n_a n = Some v \<and> sum_to_n_b n = Some v \<and>
           (n < 2 ^ 32 \<and> create n = None \<longrightarrow> sum_to_n_c create n = Inr v) \<and>
           (n * (n + 1) div 2 < 2 ^ 53 \<longrightarrow> v = \<Sum>{1..n})"
    if small: "n < 2 ^ 53"
  proof -
    let ?v = "foldl js_add 0 [1..<Suc n]"
    from small have a: "sum_to_n_a n = Some ?v"
      by (rule sum_to_n_a_returns)
    from small have b: "sum_to_n_b n = Some ?v"
      by (rule sum_to_n_b_returns)
    have c: "sum_to_n_c create n = Inr ?v" if "n < 2 ^ 32" "create n = None"
      using that by (rule sum_to_n_c_foldl)
    have d: "?v = \<Sum>{1..n}" if "n * (n + 1) div 2 < 2 ^ 53"
    proof -
      from that have "0 + sum_list [1..<Suc n] < 2 ^ 53"
        by (simp only: sum_list_one_to_n gauss add_0)
      then have "?v = 0 + sum_list [1..<Suc n]"
        by (rule foldl_js_add_exact)
      then show ?thesis
        by (simp only: sum_list_one_to_n add_0)
    qed
    show ?thesis
    proof (intro exI [of _ ?v] conjI)
      show "sum_to_n_a n = Some ?v"
        by (rule a)
      show "sum_to_n_b n = Some ?v"
        by (rule b)
      show "n < 2 ^ 32 \<and> create n = None \<longrightarrow> sum_to_n_c create n = Inr ?v"
      proof
        assume "n < 2 ^ 32 \<and> create n = None"
        then show "sum_to_n_c create n = Inr ?v"
          by (intro c) simp_all
      qed
      show "n * (n + 1) div 2 < 2 ^ 53 \<longrightarrow> ?v = \<Sum>{1..n}"
      proof
        assume "n * (n + 1) div 2 < 2 ^ 53"
        then show "?v = \<Sum>{1..n}"
          by (rule d)
      qed
    qed
  qed
  moreover have "sum_to_n_a n = None \<and> sum_to_n_b n = None" if "2 ^ 53 \<le> n"
    using that by (simp add: sum_to_n_a_never_returns sum_to_n_b_never_returns)
  ultimately show ?thesis
    using too_long refused by blast
qed

text \<open>
  For \<open>n = 4\<close> the three return 10 and for \<open>n = 0\<close> they return 0, on an engine that
  builds these arrays; for \<open>n = 2^53\<close> the loops do not return; for \<open>n = 2^32 + 1\<close> the
  third throws; and on an engine that refuses an array of 134217729 elements with a
  RangeError, the third throws that.
\<close>

theorem sum_to_n_agree_witness:
  "(4 :: nat) < 2 ^ 53 \<and> (4 :: nat) < 2 ^ 32 \<and> (4 :: nat) * (4 + 1) div 2 < 2 ^ 53 \<and>
   sum_to_n_a 4 = Some 10 \<and> sum_to_n_b 4 = Some 10 \<and> sum_to_n_c (\<lambda>n. None) 4 = Inr 10 \<and>
   sum_to_n_a 0 = Some 0 \<and> sum_to_n_b 0 = Some 0 \<and> sum_to_n_c (\<lambda>n. None) 0 = Inr 0 \<and>
   (2 :: nat) ^ 53 \<le> 9007199254740992 \<and>
   sum_to_n_a 9007199254740992 = None \<and> sum_to_n_b 9007199254740992 = None \<and>
   (2 :: nat) ^ 32 \<le> 4294967297 \<and> sum_to_n_c (\<lambda>n. None) 4294967297 = Inl RangeError \<and>
   (134217729 :: nat) < 2 ^ 32 \<and>
   sum_to_n_c (\<lambda>n. if n < 134217729 then None else Some RangeError) 134217729
     = Inl RangeError"
proof -
  have four: "sum_to_n_a 4 = Some 10 \<and> sum_to_n_b 4 = Some 10 \<and>
      sum_to_n_c (\<lambda>n. None) 4 = Inr 10"
    using sum_to_n_agree [of 4 "\<lambda>n. None"] gauss [of 4] by auto
  have zero: "sum_to_n_a 0 = Some 0 \<and> sum_to_n_b 0 = Some 0 \<and>
      sum_to_n_c (\<lambda>n. None) 0 = Inr 0"
    using sum_to_n_agree [of 0 "\<lambda>n. None"] by auto
  have stalled: "sum_to_n_a 9007199254740992 = None \<and> sum_to_n_b 9007199254740992 = None"
    using sum_to_n_agree [of 9007199254740992 "\<lambda>n. None"] by simp
  have too_long: "sum_to_n_c (\<lambda>n. None) 4294967297 = Inl RangeError"
    using sum_to_n_agree [of 4294967297 "\<lambda>n. None"] by simp
  have refused:
    "sum_to_n_c (\<lambda>n. if n < 134217729 then None else Some RangeError) 134217729
       = Inl RangeError"
    using sum_to_n_agree
      [of 134217729 "\<lambda>n. if n < 134217729 then None else Some RangeError"]
    by simp
  from four zero stalled too_long refused show ?thesis
    by simp
qed

section \<open>Chains that are not read from Object.prototype\<close>

text \<open>
  When every record has a number for its priority, the comparator is consistent, the
  sort has one permitted result, and that result is in descending order of priority with
  ties in input order. This is the case for every input none of whose chains is missing
  from the priority table and named like a member of \<^verbatim>\<open>Object.prototype\<close>.
\<close>

lemma value_priorities_key:
  assumes "\<forall>x \<in> set xs. \<exists>p. priority x = Value p"
  shows "\<forall>x \<in> set xs. \<forall>y \<in> set xs.
           (SortCompare sortedBalances_compare x y \<le> 0 \<longleftrightarrow>
              (case priority x of Value p \<Rightarrow> - p | Member m \<Rightarrow> 0) \<le>
              (case priority y of Value p \<Rightarrow> - p | Member m \<Rightarrow> 0)) \<and>
           (SortCompare sortedBalances_compare x y = 0 \<longleftrightarrow>
              (case priority x of Value p \<Rightarrow> - p | Member m \<Rightarrow> 0) =
              (case priority y of Value p \<Rightarrow> - p | Member m \<Rightarrow> 0))"
proof (intro ballI)
  fix x y
  assume "x \<in> set xs" "y \<in> set xs"
  with assms obtain p q where "priority x = Value p" "priority y = Value q"
    by blast
  then show "(SortCompare sortedBalances_compare x y \<le> 0 \<longleftrightarrow>
              (case priority x of Value p \<Rightarrow> - p | Member m \<Rightarrow> 0) \<le>
              (case priority y of Value p \<Rightarrow> - p | Member m \<Rightarrow> 0)) \<and>
           (SortCompare sortedBalances_compare x y = 0 \<longleftrightarrow>
              (case priority x of Value p \<Rightarrow> - p | Member m \<Rightarrow> 0) =
              (case priority y of Value p \<Rightarrow> - p | Member m \<Rightarrow> 0))"
    by (auto simp: SortCompare_values)
qed

lemma value_priorities_consistent:
  assumes "\<forall>x \<in> set xs. \<exists>p. priority x = Value p"
  shows "consistent_comparator (SortCompare sortedBalances_compare) (set xs)"
proof -
  from assms obtain f where f: "\<forall>x \<in> set xs. priority x = Value (f x)"
    by metis
  have cmp: "SortCompare sortedBalances_compare x y =
      (if f y < f x then - 1 else if f y = f x then 0 else 1)"
    if "x \<in> set xs" "y \<in> set xs" for x y
    using that f by (simp add: SortCompare_values)
  show ?thesis
    unfolding consistent_comparator_def by (auto simp: cmp)
qed

lemma sort_result_unique:
  assumes vals: "\<forall>x \<in> set xs. \<exists>p. priority x = Value p"
    and res: "sort_result (SortCompare sortedBalances_compare) xs ys"
  shows "ys = sort_key (\<lambda>x. case priority x of Value p \<Rightarrow> - p | Member m \<Rightarrow> 0) xs"
    and "ys = Array_sort (SortCompare sortedBalances_compare) xs"
proof -
  let ?cmp = "SortCompare sortedBalances_compare"
  let ?K = "\<lambda>x :: PrioritizedBalance. case priority x of Value p \<Rightarrow> - p | Member m \<Rightarrow> (0 :: int)"
  note key = value_priorities_key [OF vals]
  from res value_priorities_consistent [OF vals] have m: "mset ys = mset xs"
    and s: "sorted_wrt (\<lambda>a b. ?cmp a b \<le> 0) ys"
    and st: "\<forall>k \<in> set ys. filter (\<lambda>b. ?cmp k b = 0) ys = filter (\<lambda>b. ?cmp k b = 0) xs"
    by (simp_all add: sort_result_def)
  from m have sets: "set ys = set xs"
    by (rule mset_eq_setD)
  from s have "sorted_wrt (\<lambda>a b. ?K a \<le> ?K b) ys"
    by (rule sorted_wrt_mono_rel [rotated]) (use key sets in blast)
  then have so: "sorted (map ?K ys)"
    by (simp only: sorted_map)
  have fl: "filter (\<lambda>x. ?K k = ?K x) ys = filter (\<lambda>x. ?K k = ?K x) xs" if "k \<in> set ys" for k
  proof -
    have "filter (\<lambda>x. ?K k = ?K x) ys = filter (\<lambda>b. ?cmp k b = 0) ys"
      by (rule filter_cong) (use key sets that in auto)
    also have "\<dots> = filter (\<lambda>b. ?cmp k b = 0) xs"
      using st that by blast
    also have "\<dots> = filter (\<lambda>x. ?K k = ?K x) xs"
      by (rule filter_cong) (use key sets that in auto)
    finally show ?thesis .
  qed
  have "sort_key ?K xs = ys"
    by (rule properties_for_sort_key [where f = ?K, OF m fl so])
  then show "ys = sort_key ?K xs"
    by simp
  moreover have "Array_sort ?cmp xs = sort_key ?K xs"
    by (rule Array_sort_sort_key) (use key in blast)
  ultimately show "ys = Array_sort ?cmp xs"
    by simp
qed

lemma getPriority_value:
  "priorities chain = None \<longrightarrow> chain \<notin> set Object_prototype_names \<Longrightarrow>
   \<exists>p. getPriority priorities chain = Value p"
  by (cases "priorities chain") (simp_all add: getPriority_def Get_def nullish_coalesce_def)

lemma truncate_kept_priority:
  "map WalletBalance.truncate
     (filter (\<lambda>b. priority b = r)
        (filter (\<lambda>b. js_gt (amount b) (Num 0)) (balancesWithPriority priorities balances))) =
   filter (\<lambda>b. js_gt (amount b) (Num 0) \<and> getPriority priorities (blockchain b) = r) balances"
  by (induction balances) (simp_all add: balancesWithPriority_def truncate_prioritized)

lemma sorted_and_stable_without_inherited_chains:
  assumes chains: "\<forall>b \<in> set balances.
      priorities (blockchain b) = None \<longrightarrow> blockchain b \<notin> set Object_prototype_names"
    and rel: "OptimizedWalletPage_rel rnd shortest priorities prices balances out"
  shows "OptimizedWalletPage rnd shortest priorities prices balances = Inr out"
    and "sorted_wrt (\<lambda>a b. \<exists>p q. priority a = Value p \<and> priority b = Value q \<and> q \<le> p) out"
    and "map WalletBalance.truncate (filter (\<lambda>e. priority e = r) out) =
         filter (\<lambda>b. js_gt (amount b) (Num 0) \<and> getPriority priorities (blockchain b) = r)
           balances"
proof -
  let ?cmp = "SortCompare sortedBalances_compare"
  let ?K = "\<lambda>x :: PrioritizedBalance. case priority x of Value p \<Rightarrow> - p | Member m \<Rightarrow> (0 :: int)"
  let ?xs = "filter (\<lambda>b. js_gt (amount b) (Num 0)) (balancesWithPriority priorities balances)"
  let ?fmt = "\<lambda>b. \<lparr>currency = currency b, amount = amount b, blockchain = blockchain b,
                     priority = priority b,
                     formatted = toFixed_string shortest 2 (amount b),
                     usdValue =
                       js_mul rnd (ToNumber (nullish_coalesce (Get prices (currency b)) (Num 0)))
                         (amount b)\<rparr>"
  have vals: "\<forall>x \<in> set ?xs. \<exists>p. priority x = Value p"
    using chains by (auto simp: balancesWithPriority_def intro!: getPriority_value)
  from rel obtain ys where res: "sort_result ?cmp ?xs ys"
    and out: "out = map ?fmt ys"
    by (auto simp: OptimizedWalletPage_rel_def formattedBalances_Inr)
  note ys = sort_result_unique [OF vals res]
  from ys(2) out show "OptimizedWalletPage rnd shortest priorities prices balances = Inr out"
    by (simp add: OptimizedWalletPage_Inr sortedBalances_def)
  from res have sets: "set ys = set ?xs"
    by (rule sort_result_set)
  have "sorted (map ?K ys)"
    by (subst ys(1)) (rule sorted_sort_key)
  then have "sorted_wrt (\<lambda>a b. ?K a \<le> ?K b) ys"
    by (simp only: sorted_map)
  then have "sorted_wrt (\<lambda>a b. \<exists>p q. priority a = Value p \<and> priority b = Value q \<and> q \<le> p) ys"
  proof (rule sorted_wrt_mono_rel [rotated])
    fix a b
    assume "a \<in> set ys" "b \<in> set ys" and le: "?K a \<le> ?K b"
    with vals sets obtain p q where "priority a = Value p" "priority b = Value q"
      by blast
    with le show "\<exists>p q. priority a = Value p \<and> priority b = Value q \<and> q \<le> p"
      by simp
  qed
  then show "sorted_wrt (\<lambda>a b. \<exists>p q. priority a = Value p \<and> priority b = Value q \<and> q \<le> p) out"
    by (simp add: out sorted_wrt_map)
  have stable: "filter (\<lambda>b. priority b = r) ys = filter (\<lambda>b. priority b = r) ?xs"
  proof (cases r)
    case (Value p)
    have "filter (\<lambda>b. priority b = r) ys = filter (\<lambda>b. ?K b = - p) ys"
      by (rule filter_cong) (use vals sets Value in auto)
    also have "\<dots> = filter (\<lambda>b. ?K b = - p) ?xs"
      by (subst ys(1)) (rule sort_key_stable)
    also have "\<dots> = filter (\<lambda>b. priority b = r) ?xs"
      by (rule filter_cong) (use vals Value in auto)
    finally show ?thesis .
  next
    case (Member m)
    with vals sets have "filter (\<lambda>b. priority b = r) ys = []"
      and "filter (\<lambda>b. priority b = r) ?xs = []"
      by (auto simp: filter_empty_conv)
    then show ?thesis
      by simp
  qed
  have "map WalletBalance.truncate (filter (\<lambda>e. priority e = r) out) =
        map WalletBalance.truncate (filter (\<lambda>b. priority b = r) ys)"
    by (simp add: out filter_map comp_def truncate_formatted)
  then show "map WalletBalance.truncate (filter (\<lambda>e. priority e = r) out) =
         filter (\<lambda>b. js_gt (amount b) (Num 0) \<and> getPriority priorities (blockchain b) = r)
           balances"
    by (simp only: stable truncate_kept_priority)
qed

section \<open>Chains named like a member of Object.prototype\<close>

text \<open>
  A comparator that compares \<open>a\<close> equal to \<open>b\<close> and \<open>b\<close> equal to \<open>c\<close>, but not \<open>a\<close>
  equal to \<open>c\<close>, is not consistent, and then \<^verbatim>\<open>sort\<close> may return the elements in any
  order.
\<close>

lemma not_transitive_inconsistent:
  assumes "a \<in> S" "b \<in> S" "c \<in> S" "cmp a b = 0" "cmp b c = 0" "cmp a c \<noteq> 0"
  shows "\<not> consistent_comparator cmp S"
  using assms unfolding consistent_comparator_def by blast

lemma sort_result_inconsistent:
  "mset ys = mset xs \<Longrightarrow> \<not> consistent_comparator cmp (set xs) \<Longrightarrow> sort_result cmp xs ys"
  by (simp add: sort_result_def)

text \<open>
  C2 asks for an output in descending order of priority, for every input. On three
  positive balances, the second on the chain \<^verbatim>\<open>constructor\<close>, \<^verbatim>\<open>getPriority\<close> returns the
  member \<^verbatim>\<open>constructor\<close> of \<^verbatim>\<open>Object.prototype\<close> where the \<^verbatim>\<open>switch\<close> of the problematic
  page returns -99; the comparator returns NaN against that record, and the page returns
  the records in their input order: priority 20 ahead of priority 100.
\<close>

theorem constructor_chain_not_descending:
  "getPriority BLOCKCHAIN_PRIORITIES ''constructor'' = Member ''constructor'' \<and>
   problematic_getPriority ''constructor'' = - 99 \<and>
   sortedBalances_compare
     \<lparr>currency = ''NEO'', amount = Num 1, blockchain = ''Neo'', priority = Value 20\<rparr>
     \<lparr>currency = ''XXX'', amount = Num 1, blockchain = ''constructor'',
      priority = Member ''constructor''\<rparr> = NaN \<and>
   OptimizedWalletPage Num (\<lambda>x. (1, 22)) BLOCKCHAIN_PRIORITIES Map.empty
     [\<lparr>currency = ''NEO'', amount = Num 1, blockchain = ''Neo''\<rparr>,
      \<lparr>currency = ''XXX'', amount = Num 1, blockchain = ''constructor''\<rparr>,
      \<lparr>currency = ''OSMO'', amount = Num 1, blockchain = ''Osmosis''\<rparr>]
   = Inr [\<lparr>currency = ''NEO'', amount = Num 1, blockchain = ''Neo'',
           priority = Value 20, formatted = ''1.00'', usdValue = Num 0\<rparr>,
          \<lparr>currency = ''XXX'', amount = Num 1, blockchain = ''constructor'',
           priority = Member ''constructor'', formatted = ''1.00'', usdValue = Num 0\<rparr>,
          \<lparr>currency = ''OSMO'', amount = Num 1, blockchain = ''Osmosis'',
           priority = Value 100, formatted = ''1.00'', usdValue = Num 0\<rparr>]"
  by (simp add: wallet_eval problematic_getPriority_def)

text \<open>
  C10 asks that records of equal priority keep their input order, for every input. On
  seven positive balances on the chains Neo, Neo, Neo, \<^verbatim>\<open>constructor\<close>, Ethereum, Osmosis,
  Ethereum the comparator is not consistent (NEO compares equal to XXX and XXX to ETH,
  but NEO does not compare equal to ETH), so the order of the output is left to the
  engine: the page may return USDT, the second record on Ethereum, ahead of ETH, the
  first one, which is what a binary insertion sort of this array returns.
\<close>

theorem constructor_chain_reorders_ties:
  "SortCompare sortedBalances_compare
     \<lparr>currency = ''NEO'', amount = Num 1, blockchain = ''Neo'', priority = Value 20\<rparr>
     \<lparr>currency = ''XXX'', amount = Num 1, blockchain = ''constructor'',
      priority = Member ''constructor''\<rparr> = 0 \<and>
   SortCompare sortedBalances_compare
     \<lparr>currency = ''XXX'', amount = Num 1, blockchain = ''constructor'',
      priority = Member ''constructor''\<rparr>
     \<lparr>currency = ''ETH'', amount = Num 1, blockchain = ''Ethereum'', priority = Value 50\<rparr>
     = 0 \<and>
   SortCompare sortedBalances_compare
     \<lparr>currency = ''NEO'', amount = Num 1, blockchain = ''Neo'', priority = Value 20\<rparr>
     \<lparr>currency = ''ETH'', amount = Num 1, blockchain = ''Ethereum'', priority = Value 50\<rparr>
     = 1 \<and>
   OptimizedWalletPage_rel Num (\<lambda>x. (1, 22)) BLOCKCHAIN_PRIORITIES Map.empty
     [\<lparr>currency = ''NEO'', amount = Num 1, blockchain = ''Neo''\<rparr>,
      \<lparr>currency = ''GAS'', amount = Num 1, blockchain = ''Neo''\<rparr>,
      \<lparr>currency = ''FLM'', amount = Num 1, blockchain = ''Neo''\<rparr>,
      \<lparr>currency = ''XXX'', amount = Num 1, blockchain = ''constructor''\<rparr>,
      \<lparr>currency = ''ETH'', amount = Num 1, blockchain = ''Ethereum''\<rparr>,
      \<lparr>currency = ''OSMO'', amount = Num 1, blockchain = ''Osmosis''\<rparr>,
      \<lparr>currency = ''USDT'', amount = Num 1, blockchain = ''Ethereum''\<rparr>]
     [\<lparr>currency = ''OSMO'', amount = Num 1, blockchain = ''Osmosis'',
       priority = Value 100, formatted = ''1.00'', usdValue = Num 0\<rparr>,
      \<lparr>currency = ''USDT'', amount = Num 1, blockchain = ''Ethereum'',
       priority = Value 50, formatted = ''1.00'', usdValue = Num 0\<rparr>,
      \<lparr>currency = ''NEO'', amount = Num 1, blockchain = ''Neo'',
       priority = Value 20, formatted = ''1.00'', usdValue = Num 0\<rparr>,
      \<lparr>currency = ''GAS'', amount = Num 1, blockchain = ''Neo'',
       priority = Value 20, formatted = ''1.00'', usdValue = Num 0\<rparr>,
      \<lparr>currency = ''FLM'', amount = Num 1, blockchain = ''Neo'',
       priority = Value 20, formatted = ''1.00'', usdValue = Num 0\<rparr>,
      \<lparr>currency = ''XXX'', amount = Num 1, blockchain = ''constructor'',
       priority = Member ''constructor'', formatted = ''1.00'', usdValue = Num 0\<rparr>,
      \<lparr>currency = ''ETH'', amount = Num 1, blockchain = ''Ethereum'',
       priority = Value 50, formatted = ''1.00'', usdValue = Num 0\<rparr>]"
proof -
  let ?neo = "\<lparr>currency = ''NEO'', amount = Num 1, blockchain = ''Neo'', priority = Value 20\<rparr>"
  let ?gas = "\<lparr>currency = ''GAS'', amount = Num 1, blockchain = ''Neo'', priority = Value 20\<rparr>"
  let ?flm = "\<lparr>currency = ''FLM'', amount = Num 1, blockchain = ''Neo'', priority = Value 20\<rparr>"
  let ?xxx = "\<lparr>currency = ''XXX'', amount = Num 1, blockchain = ''constructor'',
               priority = Member ''constructor''\<rparr>"
  let ?eth = "\<lparr>currency = ''ETH'', amount = Num 1, blockchain = ''Ethereum'',
               priority = Value 50\<rparr>"
  let ?osmo = "\<lparr>currency = ''OSMO'', amount = Num 1, blockchain = ''Osmosis'',
                priority = Value 100\<rparr>"
  let ?usdt = "\<lparr>currency = ''USDT'', amount = Num 1, blockchain = ''Ethereum'',
                priority = Value 50\<rparr>"
  let ?xs = "[?neo, ?gas, ?flm, ?xxx, ?eth, ?osmo, ?usdt]"
  let ?ys = "[?osmo, ?usdt, ?neo, ?gas, ?flm, ?xxx, ?eth]"
  have filtered: "filter (\<lambda>balance. js_gt (amount balance) (Num 0))
        (balancesWithPriority BLOCKCHAIN_PRIORITIES
          [\<lparr>currency = ''NEO'', amount = Num 1, blockchain = ''Neo''\<rparr>,
           \<lparr>currency = ''GAS'', amount = Num 1, blockchain = ''Neo''\<rparr>,
           \<lparr>currency = ''FLM'', amount = Num 1, blockchain = ''Neo''\<rparr>,
           \<lparr>currency = ''XXX'', amount = Num 1, blockchain = ''constructor''\<rparr>,
           \<lparr>currency = ''ETH'', amount = Num 1, blockchain = ''Ethereum''\<rparr>,
           \<lparr>currency = ''OSMO'', amount = Num 1, blockchain = ''Osmosis''\<rparr>,
           \<lparr>currency = ''USDT'', amount = Num 1, blockchain = ''Ethereum''\<rparr>]) = ?xs"
    by (simp add: wallet_eval)
  have inconsistent: "\<not> consistent_comparator (SortCompare sortedBalances_compare) (set ?xs)"
    by (rule not_transitive_inconsistent [where a = ?neo and b = ?xxx and c = ?eth])
      (simp_all add: SortCompare_def sortedBalances_compare_def)
  have "mset ?ys = mset ?xs"
    by simp
  then have "sort_result (SortCompare sortedBalances_compare) ?xs ?ys"
    using inconsistent by (rule sort_result_inconsistent)
  moreover have "formattedBalances Num (\<lambda>x. (1, 22)) Map.empty ?ys =
    Inr [\<lparr>currency = ''OSMO'', amount = Num 1, blockchain = ''Osmosis'',
       priority = Value 100, formatted = ''1.00'', usdValue = Num 0\<rparr>,
      \<lparr>currency = ''USDT'', amount = Num 1, blockchain = ''Ethereum'',
       priority = Value 50, formatted = ''1.00'', usdValue = Num 0\<rparr>,
      \<lparr>currency = ''NEO'', amount = Num 1, blockchain = ''Neo'',
       priority = Value 20, formatted = ''1.00'', usdValue = Num 0\<rparr>,
      \<lparr>currency = ''GAS'', amount = Num 1, blockchain = ''Neo'',
       priority = Value 20, formatted = ''1.00'', usdValue = Num 0\<rparr>,
      \<lparr>currency = ''FLM'', amount = Num 1, blockchain = ''Neo'',
       priority = Value 20, formatted = ''1.00'', usdValue = Num 0\<rparr>,
      \<lparr>currency = ''XXX'', amount = Num 1, blockchain = ''constructor'',
       priority = Member ''constructor'', formatted = ''1.00'', usdValue = Num 0\<rparr>,
      \<lparr>currency = ''ETH'', amount = Num 1, blockchain = ''Ethereum'',
       priority = Value 50, formatted = ''1.00'', usdValue = Num 0\<rparr>]"
    by (simp add: wallet_eval)
  ultimately have "OptimizedWalletPage_rel Num (\<lambda>x. (1, 22)) BLOCKCHAIN_PRIORITIES Map.empty
     [\<lparr>currency = ''NEO'', amount = Num 1, blockchain = ''Neo''\<rparr>,
      \<lparr>currency = ''GAS'', amount = Num 1, blockchain = ''Neo''\<rparr>,
      \<lparr>currency = ''FLM'', amount = Num 1, blockchain = ''Neo''\<rparr>,
      \<lparr>currency = ''XXX'', amount = Num 1, blockchain = ''constructor''\<rparr>,
      \<lparr>currency = ''ETH'', amount = Num 1, blockchain = ''Ethereum''\<rparr>,
      \<lparr>currency = ''OSMO'', amount = Num 1, blockchain = ''Osmosis''\<rparr>,
      \<lparr>currency = ''USDT'', amount = Num 1, blockchain = ''Ethereum''\<rparr>]
     [\<lparr>currency = ''OSMO'', amount = Num 1, blockchain = ''Osmosis'',
       priority = Value 100, formatted = ''1.00'', usdValue = Num 0\<rparr>,
      \<lparr>currency = ''USDT'', amount = Num 1, blockchain = ''Ethereum'',
       priority = Value 50, formatted = ''1.00'', usdValue = Num 0\<rparr>,
      \<lparr>currency = ''NEO'', amount = Num 1, blockchain = ''Neo'',
       priority = Value 20, formatted = ''1.00'', usdValue = Num 0\<rparr>,
      \<lparr>currency = ''GAS'', amount = Num 1, blockchain = ''Neo'',
       priority = Value 20, formatted = ''1.00'', usdValue = Num 0\<rparr>,
      \<lparr>currency = ''FLM'', amount = Num 1, blockchain = ''Neo'',
       priority = Value 20, formatted = ''1.00'', usdValue = Num 0\<rparr>,
      \<lparr>currency = ''XXX'', amount = Num 1, blockchain = ''constructor'',
       priority = Member ''constructor'', formatted = ''1.00'', usdValue = Num 0\<rparr>,
      \<lparr>currency = ''ETH'', amount = Num 1, blockchain = ''Ethereum'',
       priority = Value 50, formatted = ''1.00'', usdValue = Num 0\<rparr>]"
    unfolding OptimizedWalletPage_rel_def filtered by blast
  then show ?thesis
    by (simp add: SortCompare_def sortedBalances_compare_def)
qed

end
